theory Spec2Isabelle
  imports Main "HOL-Library.Monad_Syntax" "HOL-Library.Multiset" "HOL-Library.Sublist"
begin

section \<open>Cards and the deck (package poker)\<close>

text \<open>
  Go's \<open>Rank\<close> and \<open>Suit\<close> are named \<open>int\<close> types; the constants \<open>Two\<close> .. \<open>Ace\<close> are
  2 .. 14 and \<open>Hearts\<close> .. \<open>Spades\<close> are 0 .. 3.
\<close>

type_synonym Rank = int
type_synonym Suit = int

definition Two :: Rank where "Two = 2"
definition Three :: Rank where "Three = 3"
definition Four :: Rank where "Four = 4"
definition Five :: Rank where "Five = 5"
definition Six :: Rank where "Six = 6"
definition Seven :: Rank where "Seven = 7"
definition Eight :: Rank where "Eight = 8"
definition Nine :: Rank where "Nine = 9"
definition Ten :: Rank where "Ten = 10"
definition Jack :: Rank where "Jack = 11"
definition Queen :: Rank where "Queen = 12"
definition King :: Rank where "King = 13"
definition Ace :: Rank where "Ace = 14"

definition Hearts :: Suit where "Hearts = 0"
definition Diamonds :: Suit where "Diamonds = 1"
definition Clubs :: Suit where "Clubs = 2"
definition Spades :: Suit where "Spades = 3"

record Card =
  Rank :: Rank
  Suit :: Suit

definition NewCard :: "Rank \<Rightarrow> Suit \<Rightarrow> Card" where
  "NewCard rank suit = \<lparr>Rank = rank, Suit = suit\<rparr>"

text \<open>The zero value \<open>Card{}\<close>, which \<open>Deal\<close> returns next to an error.\<close>

definition zeroCard :: Card where
  "zeroCard = \<lparr>Rank = 0, Suit = 0\<rparr>"

text \<open>
  Every failure of the Go code is a value: the errors made with \<open>errors.New\<close> and
  \<open>fmt.Errorf\<close>, the sentinel errors of the package, and \<open>Panic\<close> for a run-time panic
  (index out of range, nil dereference, integer division by zero, \<open>make\<close> with a negative
  length).
\<close>

datatype error =
    Panic
  | EmptyDeck
  | InsufficientCards
  | GameIsFull
  | PlayerAlreadyInGame
  | PlayerNotInGame
  | CannotActDuringThisPhase
  | NotYourTurn
  | PlayerCannotAct
  | CannotCheck
  | MinimumRaiseIs int
  | InsufficientChips
  | InsufficientChipsForRaise
  | ErrGameNotFound
  | ErrGameAlreadyExists
  | ErrGameFull
  | ErrTooManyTables
  | ErrInvalidBuyIn

text \<open>Sequencing of steps that can fail: the first failure is the result.\<close>

definition bindE :: "error + 'a \<Rightarrow> ('a \<Rightarrow> error + 'b) \<Rightarrow> error + 'b" where
  "bindE r f = (case r of Inl err \<Rightarrow> Inl err | Inr x \<Rightarrow> f x)"

text \<open>
  The deck is the slice of undealt cards. Its private random source is not part of the
  state here: \<open>Shuffle\<close> takes the draws of \<open>rng.Intn\<close> as an argument.
\<close>

record Deck =
  DeckCards :: "Card list"

text \<open>\<open>NewDeck\<close>: suits outermost, ranks innermost, Hearts-Two first.\<close>

definition allCards :: "Card list" where
  "allCards = concat (map (\<lambda>suit. map (\<lambda>rank. NewCard rank suit) [Two..Ace]) [Hearts..Spades])"

definition NewDeck :: Deck where
  "NewDeck = \<lparr>DeckCards = allCards\<rparr>"

text \<open>
  \<open>Shuffle\<close>: Fisher-Yates from the last index down to 1; \<open>draw i\<close> stands for the
  result of \<open>rng.Intn(i + 1)\<close>, which lies in \<open>0 .. i\<close>.
\<close>

fun shuffleFrom :: "nat \<Rightarrow> (nat \<Rightarrow> nat) \<Rightarrow> Card list \<Rightarrow> Card list" where
  "shuffleFrom 0 draw cs = cs"
| "shuffleFrom (Suc i) draw cs =
     (let j = draw (Suc i) mod (Suc i + 1)
      in shuffleFrom i draw (cs[Suc i := cs ! j, j := cs ! Suc i]))"

definition Shuffle :: "(nat \<Rightarrow> nat) \<Rightarrow> Deck \<Rightarrow> Deck" where
  "Shuffle draw d = d\<lparr>DeckCards := shuffleFrom (length (DeckCards d) - 1) draw (DeckCards d)\<rparr>"

definition Reset :: "(nat \<Rightarrow> nat) \<Rightarrow> Deck \<Rightarrow> Deck" where
  "Reset draw d = Shuffle draw (d\<lparr>DeckCards := allCards\<rparr>)"

definition Remaining :: "Deck \<Rightarrow> int" where
  "Remaining d = int (length (DeckCards d))"

text \<open>
  \<open>Deal\<close> returns the result and the deck afterwards. On an empty deck the result is the
  error and the deck is the one passed in.
\<close>

definition Deal :: "Deck \<Rightarrow> (error + Card) \<times> Deck" where
  "Deal d =
     (case DeckCards d of
        [] \<Rightarrow> (Inl EmptyDeck, d)
      | c # rest \<Rightarrow> (Inr c, d\<lparr>DeckCards := rest\<rparr>))"

text \<open>
  The loop of \<open>DealMultiple\<close>: \<open>count\<close> calls of \<open>Deal\<close>, stopping at the first error with
  whatever has been consumed so far.
\<close>

fun dealLoop :: "nat \<Rightarrow> Deck \<Rightarrow> Card list \<Rightarrow> (error + Card list) \<times> Deck" where
  "dealLoop 0 d cards = (Inr cards, d)"
| "dealLoop (Suc k) d cards =
     (case Deal d of
        (Inl err, d') \<Rightarrow> (Inl err, d')
      | (Inr c, d') \<Rightarrow> dealLoop k d' (cards @ [c]))"

text \<open>
  \<open>DealMultiple\<close>: the length check first; \<open>make([]Card, count)\<close> panics on a negative
  count before anything is dealt.
\<close>

definition DealMultiple :: "int \<Rightarrow> Deck \<Rightarrow> (error + Card list) \<times> Deck" where
  "DealMultiple cnt d =
     (if int (length (DeckCards d)) < cnt then (Inl InsufficientCards, d)
      else if cnt < 0 then (Inl Panic, d)
      else dealLoop (nat cnt) d [])"

section \<open>Hand evaluation (package poker)\<close>

datatype HandRank =
    HighCard
  | OnePair
  | TwoPair
  | ThreeOfAKind
  | Straight
  | Flush
  | FullHouse
  | FourOfAKind
  | StraightFlush
  | RoyalFlush

text \<open>The conversion \<open>int(rank)\<close> of the \<open>iota\<close> constants.\<close>

fun rankInt :: "HandRank \<Rightarrow> int" where
  "rankInt HighCard = 0"
| "rankInt OnePair = 1"
| "rankInt TwoPair = 2"
| "rankInt ThreeOfAKind = 3"
| "rankInt Straight = 4"
| "rankInt Flush = 5"
| "rankInt FullHouse = 6"
| "rankInt FourOfAKind = 7"
| "rankInt StraightFlush = 8"
| "rankInt RoyalFlush = 9"

record Hand =
  Cards :: "Card list"
  HRank :: HandRank
  Kickers :: "Rank list"
  Value :: int

text \<open>
  The counting loop of \<open>evaluate\<close>: \<open>ranks[card.Rank]++\<close> and \<open>suits[card.Suit]++\<close> for
  every card. An index outside the array is a panic.
\<close>

fun tally :: "Card list \<Rightarrow> int list \<Rightarrow> int list \<Rightarrow> error + (int list \<times> int list)" where
  "tally [] ranks suits = Inr (ranks, suits)"
| "tally (c # cs) ranks suits =
     (if 0 \<le> Rank c \<and> Rank c < int (length ranks) \<and> 0 \<le> Suit c \<and> Suit c < int (length suits)
      then tally cs (ranks[nat (Rank c) := ranks ! nat (Rank c) + 1])
                    (suits[nat (Suit c) := suits ! nat (Suit c) + 1])
      else Inl Panic)"

text \<open>The ranks in the order of the loops \<open>for rank := Ace; rank >= Two; rank--\<close>.\<close>

definition ranksDown :: "Rank list" where
  "ranksDown = rev [Two..Ace]"

text \<open>
  The first loop of \<open>checkStraight\<close>, with its two variables; \<open>Some\<close> is the
  \<open>return true, high\<close> inside the loop, \<open>None\<close> is falling out of it.
\<close>

fun straightLoop :: "int list \<Rightarrow> Rank list \<Rightarrow> int \<Rightarrow> Rank \<Rightarrow> (bool \<times> Rank) option" where
  "straightLoop ranks [] consecutive high = None"
| "straightLoop ranks (r # rs) consecutive high =
     (let consecutive' = (if ranks ! nat r > 0 then consecutive + 1 else 0);
          high' = (if ranks ! nat r > 0 \<and> consecutive' = 1 then r else high)
      in if consecutive' = 5 then Some (True, high')
         else straightLoop ranks rs consecutive' high')"

definition checkStraight :: "int list \<Rightarrow> bool \<times> Rank" where
  "checkStraight ranks =
     (case straightLoop ranks ranksDown 0 0 of
        Some res \<Rightarrow> res
      | None \<Rightarrow>
          if ranks ! nat Ace > 0 \<and> ranks ! nat Two > 0 \<and> ranks ! nat Three > 0
             \<and> ranks ! nat Four > 0 \<and> ranks ! nat Five > 0
          then (True, Five)
          else (False, 0))"

text \<open>\<open>kickerValue\<close>: from the last kicker to the first, the multiplier growing by 100.\<close>

fun kickerLoop :: "Rank list \<Rightarrow> int \<Rightarrow> int \<Rightarrow> int" where
  "kickerLoop [] val multiplier = val"
| "kickerLoop (k # ks) val multiplier = kickerLoop ks (val + k * multiplier) (multiplier * 100)"

definition kickerValue :: "Rank list \<Rightarrow> int" where
  "kickerValue kickers = kickerLoop (rev kickers) 0 1"

text \<open>
  The ranks that occur \<open>n\<close> times, highest first: what the \<open>switch count\<close> loop appends to
  \<open>quads\<close>, \<open>trips\<close>, \<open>pairs\<close> and \<open>kickers\<close> for \<open>n\<close> = 4, 3, 2, 1.
\<close>

definition ranksWithCount :: "int list \<Rightarrow> int \<Rightarrow> Rank list" where
  "ranksWithCount ranks n = filter (\<lambda>rank. ranks ! nat rank = n) ranksDown"

text \<open>
  \<open>evaluate\<close>, on the cards of the hand (already sorted by \<open>NewHand\<close>). Reading \<open>h.Cards[1]\<close>,
  \<open>kickers[0]\<close>, \<open>pairs[1]\<close> and the like outside the slice is a panic.
\<close>

definition evaluate :: "Card list \<Rightarrow> error + Hand" where
  "evaluate cards =
     (case tally cards (replicate 15 0) (replicate 4 0) of
        Inl err \<Rightarrow> Inl err
      | Inr (ranks, suits) \<Rightarrow>
          let isFlush = (5 \<in> set suits);
              (isStraight, straightHigh) = checkStraight ranks
          in
          if isStraight \<and> isFlush then
            (if straightHigh = Ace \<and> length cards \<le> 1 then Inl Panic
             else if straightHigh = Ace \<and> Rank (cards ! 1) = King then
               Inr \<lparr>Cards = cards, HRank = RoyalFlush, Kickers = [],
                    Value = rankInt RoyalFlush * 100000000 + Ace\<rparr>
             else
               Inr \<lparr>Cards = cards, HRank = StraightFlush, Kickers = [],
                    Value = rankInt StraightFlush * 100000000 + straightHigh\<rparr>)
          else
            let pairs = ranksWithCount ranks 2;
                trips = ranksWithCount ranks 3;
                quads = ranksWithCount ranks 4;
                kickers = ranksWithCount ranks 1
            in
            if length quads = 1 then
              (case kickers of
                 [] \<Rightarrow> Inl Panic
               | k0 # _ \<Rightarrow>
                   Inr \<lparr>Cards = cards, HRank = FourOfAKind, Kickers = quads ! 0 # kickers,
                        Value = rankInt FourOfAKind * 100000000 + quads ! 0 * 1000000 + k0\<rparr>)
            else if length trips = 1 \<and> length pairs = 1 then
              Inr \<lparr>Cards = cards, HRank = FullHouse, Kickers = [trips ! 0, pairs ! 0],
                   Value = rankInt FullHouse * 100000000 + trips ! 0 * 1000000 + pairs ! 0\<rparr>
            else if isFlush then
              Inr \<lparr>Cards = cards, HRank = Flush, Kickers = kickers,
                   Value = rankInt Flush * 100000000 + kickerValue kickers\<rparr>
            else if isStraight then
              Inr \<lparr>Cards = cards, HRank = Straight, Kickers = [straightHigh],
                   Value = rankInt Straight * 100000000 + straightHigh\<rparr>
            else if length trips = 1 then
              Inr \<lparr>Cards = cards, HRank = ThreeOfAKind, Kickers = trips ! 0 # kickers,
                   Value = rankInt ThreeOfAKind * 100000000 + trips ! 0 * 1000000
                           + kickerValue kickers\<rparr>
            else if length pairs = 2 then
              (case kickers of
                 [] \<Rightarrow> Inl Panic
               | k0 # _ \<Rightarrow>
                   Inr \<lparr>Cards = cards, HRank = TwoPair, Kickers = pairs @ kickers,
                        Value = rankInt TwoPair * 100000000 + pairs ! 0 * 1000000
                                + pairs ! 1 * 10000 + k0\<rparr>)
            else if length pairs = 1 then
              Inr \<lparr>Cards = cards, HRank = OnePair, Kickers = pairs ! 0 # kickers,
                   Value = rankInt OnePair * 100000000 + pairs ! 0 * 1000000
                           + kickerValue kickers\<rparr>
            else
              Inr \<lparr>Cards = cards, HRank = HighCard, Kickers = kickers,
                   Value = rankInt HighCard * 100000000 + kickerValue kickers\<rparr>)"

text \<open>
  \<open>NewHand\<close>: panics unless there are exactly 5 cards; sorts a copy by rank, highest
  first, and evaluates. \<open>sort.Slice\<close> on five elements is an insertion sort, which keeps
  cards of equal rank in their order: the stable sort on the negated rank.
\<close>

definition NewHand :: "Card list \<Rightarrow> error + Hand" where
  "NewHand cards =
     (if length cards \<noteq> 5 then Inl Panic
      else evaluate (sort_key (\<lambda>c. - Rank c) cards))"

definition CompareHands :: "Hand \<Rightarrow> Hand \<Rightarrow> int" where
  "CompareHands h1 h2 =
     (if Value h1 > Value h2 then 1
      else if Value h1 < Value h2 then - 1
      else 0)"

text \<open>
  \<open>generateCombinations\<close>: the closure \<open>backtrack(start, current)\<close> and its \<open>for\<close> loop, on
  the cards from index \<open>start\<close> on. The result slice is appended to in the order of the
  calls.
\<close>

fun backtrack :: "nat \<Rightarrow> 'a list \<Rightarrow> 'a list \<Rightarrow> 'a list list"
  and backtrackLoop :: "nat \<Rightarrow> 'a list \<Rightarrow> 'a list \<Rightarrow> 'a list list" where
  "backtrack r rest current =
     (if length current = r then [current] else backtrackLoop r rest current)"
| "backtrackLoop r [] current = []"
| "backtrackLoop r (c # cs) current =
     backtrack r cs (current @ [c]) @ backtrackLoop r cs current"

definition generateCombinations :: "'a list \<Rightarrow> nat \<Rightarrow> 'a list list" where
  "generateCombinations cards r = backtrack r cards []"

text \<open>
  The loop of \<open>GetBestHand\<close>; \<open>bestHand\<close> is a pointer, \<open>None\<close> while it is nil.
\<close>

fun bestLoop :: "Card list list \<Rightarrow> Hand option \<Rightarrow> error + Hand option" where
  "bestLoop [] bestHand = Inr bestHand"
| "bestLoop (combo # combos) bestHand =
     (case NewHand combo of
        Inl err \<Rightarrow> Inl err
      | Inr hand \<Rightarrow>
          (case bestHand of
             None \<Rightarrow> bestLoop combos (Some hand)
           | Some best \<Rightarrow>
               if CompareHands hand best > 0 then bestLoop combos (Some hand)
               else bestLoop combos (Some best)))"

definition GetBestHand :: "Card list \<Rightarrow> error + Hand option" where
  "GetBestHand cards =
     (if length cards \<noteq> 7 then Inl Panic
      else bestLoop (generateCombinations cards 5) None)"

section \<open>Players (package game)\<close>

text \<open>
  Chip amounts are Go's \<open>int64\<close>: integers here, with the wrap-around written out
  (\<open>wrap64\<close>) wherever the code adds or subtracts them. Seat indices (\<open>DealerPos\<close>,
  \<open>CurrentPlayer\<close>, ...) are Go's \<open>int\<close>; the code only ever stores a remainder modulo
  the number of seats or decrements a positive index, so they are natural numbers here.
  \<open>time.Now()\<close> is an argument \<open>now\<close> of every operation that reads the clock.
\<close>

datatype GamePhase = WaitingForPlayers | PreFlop | Flop | Turn | River | Showdown | GameOver

text \<open>
  \<open>PlayerAction\<close> is an \<open>int\<close> with five named values; \<open>OtherAction\<close> is any other value.
\<close>

datatype PlayerAction = Fold | Check | Call | Raise | AllIn | OtherAction int

text \<open>
  Sums and differences of \<open>int64\<close> wrap around: \<open>wrap64\<close> is the value that Go keeps of
  an exact result. (A quotient by the number of winners, which is positive, is within
  range as it is.)
\<close>

definition wrap64 :: "int \<Rightarrow> int" where
  "wrap64 x = (x + 9223372036854775808) mod 18446744073709551616 - 9223372036854775808"

record Action =
  PlayerID :: string
  ActionKind :: PlayerAction
  Amount :: int
  Time :: int

record Player =
  ID :: string
  Username :: string
  ChipCount :: int
  HoleCards :: "Card list"
  CurrentBet :: int
  TotalBet :: int
  HasFolded :: bool
  IsAllIn :: bool
  IsActive :: bool
  SeatPosition :: int
  LastAction :: "Action option"
  Connected :: bool
  ActionTime :: int

definition NewPlayer :: "string \<Rightarrow> string \<Rightarrow> int \<Rightarrow> int \<Rightarrow> Player" where
  "NewPlayer ident username buyIn seatPosition =
     \<lparr>ID = ident, Username = username, ChipCount = buyIn, HoleCards = [],
      CurrentBet = 0, TotalBet = 0, HasFolded = False, IsAllIn = False, IsActive = True,
      SeatPosition = seatPosition, LastAction = None, Connected = True, ActionTime = 0\<rparr>"

definition CanAct :: "Player \<Rightarrow> bool" where
  "CanAct p = (IsActive p \<and> \<not> HasFolded p \<and> \<not> IsAllIn p \<and> Connected p)"

definition Bet :: "int \<Rightarrow> Player \<Rightarrow> error + Player" where
  "Bet amount p =
     (if amount > ChipCount p then Inl InsufficientChips
      else Inr (p\<lparr>ChipCount := wrap64 (ChipCount p - amount),
                  CurrentBet := wrap64 (CurrentBet p + amount),
                  TotalBet := wrap64 (TotalBet p + amount),
                  IsAllIn := (if wrap64 (ChipCount p - amount) = 0 then True else IsAllIn p)\<rparr>))"

definition FoldHand :: "Player \<Rightarrow> Player" where
  "FoldHand p = p\<lparr>HasFolded := True\<rparr>"

definition ResetForNewHand :: "Player \<Rightarrow> Player" where
  "ResetForNewHand p =
     p\<lparr>HoleCards := [], CurrentBet := 0, TotalBet := 0, HasFolded := False, IsAllIn := False,
       LastAction := None, ActionTime := 0,
       IsActive := (ChipCount p > 0 \<and> Connected p)\<rparr>"

section \<open>The game (package game)\<close>

record SidePot =
  PotAmount :: int
  EligiblePlayers :: "string list"

record GameConfig =
  MaxTablesPerUser :: int
  MaxPlayersPerTable :: int
  MinPlayersPerTable :: int
  DefaultBuyIn :: int
  MaxBuyIn :: int
  MinBuyIn :: int
  cfgSmallBlind :: int
  cfgBigBlind :: int
  cfgTurnTimeout :: int
  DecisionTimeout :: int

text \<open>
  \<open>Players\<close> is the Go map from player id to \<open>*Player\<close>; a pointer to a player is the
  player's key in this map, and writing through the pointer is an update of the map at
  that key.
\<close>

record Game =
  GameID :: string
  GameName :: string
  MaxPlayers :: int
  MinPlayers :: int
  SmallBlind :: int
  BigBlind :: int
  BuyIn :: int
  Players :: "string \<rightharpoonup> Player"
  PlayerOrder :: "string list"
  Phase :: GamePhase
  CommunityCards :: "Card list"
  Pot :: int
  SidePots :: "SidePot list"
  GameDeck :: Deck
  DealerPos :: nat
  SmallBlindPos :: nat
  BigBlindPos :: nat
  CurrentPlayer :: nat
  LastRaise :: int
  MinRaise :: int
  Actions :: "Action list"
  HandNumber :: int
  Created :: int
  LastActivity :: int
  TurnTimeout :: int

definition NewGame :: "string \<Rightarrow> string \<Rightarrow> GameConfig \<Rightarrow> int \<Rightarrow> Game" where
  "NewGame ident name config now =
     \<lparr>GameID = ident, GameName = name,
      MaxPlayers = MaxPlayersPerTable config, MinPlayers = MinPlayersPerTable config,
      SmallBlind = cfgSmallBlind config, BigBlind = cfgBigBlind config,
      BuyIn = DefaultBuyIn config,
      Players = Map.empty, PlayerOrder = [], Phase = WaitingForPlayers,
      CommunityCards = [], Pot = 0, SidePots = [], GameDeck = NewDeck,
      DealerPos = 0, SmallBlindPos = 0, BigBlindPos = 0, CurrentPlayer = 0,
      LastRaise = 0, MinRaise = cfgBigBlind config, Actions = [], HandNumber = 0,
      Created = now, LastActivity = now, TurnTimeout = cfgTurnTimeout config\<rparr>"

text \<open>\<open>len(g.Players)\<close>.\<close>

definition numPlayers :: "Game \<Rightarrow> int" where
  "numPlayers g = int (card (dom (Players g)))"

definition getCurrentPlayerID :: "Game \<Rightarrow> string" where
  "getCurrentPlayerID g =
     (if length (PlayerOrder g) = 0 \<or> CurrentPlayer g \<ge> length (PlayerOrder g) then []
      else PlayerOrder g ! CurrentPlayer g)"

text \<open>The players that have not folded, as keys, in seat order.\<close>

definition getActivePlayers :: "Game \<Rightarrow> string list" where
  "getActivePlayers g =
     filter (\<lambda>playerID. case Players g playerID of
                           None \<Rightarrow> False
                         | Some player \<Rightarrow> \<not> HasFolded player)
            (PlayerOrder g)"

definition isBettingRoundComplete :: "Game \<Rightarrow> bool" where
  "isBettingRoundComplete g =
     (let activePlayers = getActivePlayers g
      in if length activePlayers \<le> 1 then True
         else \<not> list_ex (\<lambda>playerID. case Players g playerID of
                               None \<Rightarrow> False
                             | Some player \<Rightarrow>
                                 CanAct player
                                 \<and> (LastAction player = None \<or> CurrentBet player < LastRaise g))
                         activePlayers)"

text \<open>
  The loop of \<open>moveToNextActivePlayer\<close>, on the current index: stop at a player who can
  act, or when the index comes back to \<open>startPos\<close>.
\<close>

function nextActiveFrom :: "Game \<Rightarrow> nat \<Rightarrow> nat \<Rightarrow> error + nat" where
  "nextActiveFrom g startPos cur =
     (if cur \<ge> length (PlayerOrder g) \<or> startPos \<ge> length (PlayerOrder g) then Inl Panic
      else if (case Players g (PlayerOrder g ! cur) of
                 None \<Rightarrow> False
               | Some player \<Rightarrow> CanAct player)
      then Inr cur
      else let next = (cur + 1) mod length (PlayerOrder g)
           in if next = startPos then Inr next
              else nextActiveFrom g startPos next)"
  by pat_completeness auto
termination
proof (relation "measure (\<lambda>(g, startPos, cur).
         if cur = startPos then length (PlayerOrder g)
         else (startPos + length (PlayerOrder g) - cur) mod length (PlayerOrder g))")
  show "wf (measure (\<lambda>(g, startPos, cur).
         if cur = startPos then length (PlayerOrder g)
         else (startPos + length (PlayerOrder g) - cur) mod length (PlayerOrder g)))"
    by simp
next
  fix g :: Game and startPos cur nxt :: nat
  let ?n = "length (PlayerOrder g)"
  assume "\<not> (length (PlayerOrder g) \<le> cur \<or> length (PlayerOrder g) \<le> startPos)"
    and "nxt = (cur + 1) mod length (PlayerOrder g)" and ne: "nxt \<noteq> startPos"
  then have lt: "cur < ?n" "startPos < ?n" and nxt: "nxt = (cur + 1) mod ?n"
    by simp_all
  have dist: "(startPos + ?n - c) mod ?n = (if c < startPos then startPos - c else startPos + ?n - c)"
    if c: "c < ?n" "c \<noteq> startPos" for c
  proof (cases "c < startPos")
    case True
    then have "startPos + ?n - c = (startPos - c) + ?n" by simp
    then have "(startPos + ?n - c) mod ?n = (startPos - c) mod ?n" by (simp only: mod_add_self2)
    with True lt show ?thesis by simp
  next
    case False
    with c lt have "startPos + ?n - c < ?n" by simp
    with False show ?thesis by simp
  qed
  from lt have pos: "0 < ?n" by (cases "PlayerOrder g") simp_all
  with nxt have nlt: "nxt < ?n" by simp
  have "(if nxt = startPos then ?n else (startPos + ?n - nxt) mod ?n)
      < (if cur = startPos then ?n else (startPos + ?n - cur) mod ?n)"
  proof (cases "cur = startPos")
    case True
    with ne nlt pos show ?thesis by simp
  next
    case False
    from dist [OF lt(1) False] dist [OF nlt ne] have
      a: "(startPos + ?n - cur) mod ?n = (if cur < startPos then startPos - cur else startPos + ?n - cur)"
      and b: "(startPos + ?n - nxt) mod ?n = (if nxt < startPos then startPos - nxt else startPos + ?n - nxt)"
      by simp_all
    show ?thesis
    proof (cases "Suc cur = ?n")
      case True
      with nxt have "nxt = 0" by simp
      with a b ne False lt True pos show ?thesis by auto
    next
      case False
      with lt nxt have "nxt = Suc cur" by simp
      with a b ne \<open>cur \<noteq> startPos\<close> lt pos show ?thesis by auto
    qed
  qed
  then show "((g, startPos, nxt), (g, startPos, cur)) \<in> measure (\<lambda>(g, startPos, cur).
         if cur = startPos then length (PlayerOrder g)
         else (startPos + length (PlayerOrder g) - cur) mod length (PlayerOrder g))"
    by simp
qed

definition moveToNextActivePlayer :: "Game \<Rightarrow> error + Game" where
  "moveToNextActivePlayer g =
     bindE (nextActiveFrom g (CurrentPlayer g) (CurrentPlayer g))
       (\<lambda>pos. Inr (g\<lparr>CurrentPlayer := pos\<rparr>))"

text \<open>\<open>x % len(g.PlayerOrder)\<close>: a panic when there is no seat.\<close>

definition modSeats :: "Game \<Rightarrow> nat \<Rightarrow> error + nat" where
  "modSeats g x =
     (if length (PlayerOrder g) = 0 then Inl Panic else Inr (x mod length (PlayerOrder g)))"

definition moveToNextPlayer :: "Game \<Rightarrow> error + Game" where
  "moveToNextPlayer g =
     bindE (modSeats g (CurrentPlayer g + 1))
       (\<lambda>pos. moveToNextActivePlayer (g\<lparr>CurrentPlayer := pos\<rparr>))"

text \<open>\<open>card, _ := g.Deck.Deal()\<close>: the zero card when the deck is empty.\<close>

definition dealOrZero :: "Deck \<Rightarrow> Card \<times> Deck" where
  "dealOrZero d = (case Deal d of (Inl err, d') \<Rightarrow> (zeroCard, d') | (Inr c, d') \<Rightarrow> (c, d'))"

text \<open>Burn a card (the result of \<open>Deal\<close> is dropped), then deal one community card.\<close>

definition burn :: "Game \<Rightarrow> Game" where
  "burn g = g\<lparr>GameDeck := snd (Deal (GameDeck g))\<rparr>"

definition dealCommunityCard :: "Game \<Rightarrow> Game" where
  "dealCommunityCard g =
     (let (c, d) = dealOrZero (GameDeck g)
      in g\<lparr>GameDeck := d, CommunityCards := CommunityCards g @ [c]\<rparr>)"

definition dealFlop :: "Game \<Rightarrow> Game" where
  "dealFlop g = dealCommunityCard (dealCommunityCard (dealCommunityCard (burn g)))"

definition dealTurn :: "Game \<Rightarrow> Game" where
  "dealTurn g = dealCommunityCard (burn g)"

definition dealRiver :: "Game \<Rightarrow> Game" where
  "dealRiver g = dealCommunityCard (burn g)"

text \<open>
  \<open>calculateSidePots\<close>: one pot with the whole of \<open>g.Pot\<close>, eligible the players that have
  not folded. Reading \<open>HasFolded\<close> through a nil pointer is a panic.
\<close>

fun eligibleLoop :: "Game \<Rightarrow> string list \<Rightarrow> string list \<Rightarrow> error + string list" where
  "eligibleLoop g [] eligible = Inr eligible"
| "eligibleLoop g (playerID # rest) eligible =
     (case Players g playerID of
        None \<Rightarrow> Inl Panic
      | Some player \<Rightarrow>
          if \<not> HasFolded player then eligibleLoop g rest (eligible @ [playerID])
          else eligibleLoop g rest eligible)"

definition calculateSidePots :: "Game \<Rightarrow> error + Game" where
  "calculateSidePots g =
     bindE (eligibleLoop g (PlayerOrder g) [])
       (\<lambda>eligible. Inr (g\<lparr>SidePots := [\<lparr>PotAmount = Pot g, EligiblePlayers = eligible\<rparr>]\<rparr>))"

text \<open>
  The loop of \<open>determineWinners\<close>; \<open>bestHand\<close> and the result of \<open>GetBestHand\<close> are
  pointers (\<open>None\<close> is nil), and comparing through a nil pointer is a panic.
\<close>

fun winnersLoop :: "Game \<Rightarrow> string list \<Rightarrow> Hand option \<Rightarrow> string list \<Rightarrow> error + string list" where
  "winnersLoop g [] bestHand winners = Inr winners"
| "winnersLoop g (playerID # rest) bestHand winners =
     (case Players g playerID of
        None \<Rightarrow> Inl Panic
      | Some player \<Rightarrow>
          if length (HoleCards player) \<noteq> 2 \<or> length (CommunityCards g) \<noteq> 5
          then winnersLoop g rest bestHand winners
          else
            (case GetBestHand (HoleCards player @ CommunityCards g) of
               Inl err \<Rightarrow> Inl err
             | Inr playerHand \<Rightarrow>
                 (case bestHand of
                    None \<Rightarrow> winnersLoop g rest playerHand [playerID]
                  | Some best \<Rightarrow>
                      (case playerHand of
                         None \<Rightarrow> Inl Panic
                       | Some hand \<Rightarrow>
                           let comparison = CompareHands hand best
                           in if comparison > 0 then winnersLoop g rest (Some hand) [playerID]
                              else if comparison = 0
                              then winnersLoop g rest bestHand (winners @ [playerID])
                              else winnersLoop g rest bestHand winners))))"

definition determineWinners :: "Game \<Rightarrow> string list \<Rightarrow> error + string list" where
  "determineWinners g players =
     (if length players = 1 then Inr players else winnersLoop g players None [])"

text \<open>
  Go's \<open>/\<close> and \<open>%\<close> on integers truncate towards zero, and a zero divisor is a panic.
\<close>

definition goDiv :: "int \<Rightarrow> int \<Rightarrow> error + int" where
  "goDiv a b = (if b = 0 then Inl Panic else Inr (sgn a * sgn b * (\<bar>a\<bar> div \<bar>b\<bar>)))"

definition goMod :: "int \<Rightarrow> int \<Rightarrow> error + int" where
  "goMod a b = (if b = 0 then Inl Panic else Inr (sgn a * (\<bar>a\<bar> mod \<bar>b\<bar>)))"

text \<open>\<open>winner.ChipCount += share\<close>, through the pointer.\<close>

definition addChips :: "string \<Rightarrow> int \<Rightarrow> Game \<Rightarrow> error + Game" where
  "addChips playerID share g =
     (case Players g playerID of
        None \<Rightarrow> Inl Panic
      | Some player \<Rightarrow>
          Inr (g\<lparr>Players :=
                 (Players g)(playerID \<mapsto> player\<lparr>ChipCount := wrap64 (ChipCount player + share)\<rparr>)\<rparr>))"

text \<open>The inner loop of \<open>distributePots\<close>: winner number \<open>i\<close> onwards.\<close>

fun payWinners :: "string list \<Rightarrow> nat \<Rightarrow> int \<Rightarrow> int \<Rightarrow> Game \<Rightarrow> error + Game" where
  "payWinners [] i potShare remainder g = Inr g"
| "payWinners (winner # rest) i potShare remainder g =
     (let share = (if int i < remainder then wrap64 (potShare + 1) else potShare)
      in bindE (addChips winner share g) (payWinners rest (Suc i) potShare remainder))"

fun payPots :: "SidePot list \<Rightarrow> string list \<Rightarrow> Game \<Rightarrow> error + Game" where
  "payPots [] winners g = Inr g"
| "payPots (sidePot # rest) winners g =
     bindE (goDiv (PotAmount sidePot) (int (length winners))) (\<lambda>potShare.
     bindE (goMod (PotAmount sidePot) (int (length winners))) (\<lambda>remainder.
     bindE (payWinners winners 0 potShare remainder g) (payPots rest winners)))"

definition distributePots :: "Game \<Rightarrow> error + Game" where
  "distributePots g =
     (let activePlayers = getActivePlayers g
      in if length activePlayers = 0 then Inr g
         else if length activePlayers = 1 then
           bindE (addChips (activePlayers ! 0) (Pot g) g) (\<lambda>g'. Inr (g'\<lparr>Pot := 0\<rparr>))
         else
           bindE (determineWinners g activePlayers) (\<lambda>winners.
           bindE (payPots (SidePots g) winners g) (\<lambda>g'. Inr (g'\<lparr>Pot := 0\<rparr>))))"

text \<open>
  \<open>removeEliminatedPlayers\<close>: index \<open>i\<close> runs from the last seat down to 0;
  \<open>removeFrom (Suc i)\<close> is the loop at index \<open>i\<close>.
\<close>

fun removeFrom :: "nat \<Rightarrow> Game \<Rightarrow> error + Game" where
  "removeFrom 0 g = Inr g"
| "removeFrom (Suc i) g =
     (if i \<ge> length (PlayerOrder g) then Inl Panic
      else
        let playerID = PlayerOrder g ! i
        in case Players g playerID of
             None \<Rightarrow> Inl Panic
           | Some player \<Rightarrow>
               if ChipCount player \<le> 0 \<and> \<not> Connected player then
                 removeFrom i
                   (g\<lparr>Players := (Players g)(playerID := None),
                      PlayerOrder := take i (PlayerOrder g) @ drop (Suc i) (PlayerOrder g),
                      DealerPos := (if DealerPos g > i then DealerPos g - 1 else DealerPos g),
                      SmallBlindPos :=
                        (if SmallBlindPos g > i then SmallBlindPos g - 1 else SmallBlindPos g),
                      BigBlindPos :=
                        (if BigBlindPos g > i then BigBlindPos g - 1 else BigBlindPos g),
                      CurrentPlayer :=
                        (if CurrentPlayer g > i then CurrentPlayer g - 1 else CurrentPlayer g)\<rparr>)
               else removeFrom i g)"

definition removeEliminatedPlayers :: "Game \<Rightarrow> error + Game" where
  "removeEliminatedPlayers g = removeFrom (length (PlayerOrder g)) g"

text \<open>
  \<open>endHand\<close>. The timer it starts when the game goes on fires later, as a step of its own
  (\<open>nextHandTimer\<close> below); nothing of the state changes when it is started.
\<close>

definition endHand :: "Game \<Rightarrow> error + Game" where
  "endHand g =
     bindE (calculateSidePots (g\<lparr>Phase := Showdown\<rparr>)) (\<lambda>g1.
     bindE (distributePots g1) (\<lambda>g2.
     bindE (removeEliminatedPlayers g2) (\<lambda>g3.
       if int (length (getActivePlayers g3)) < MinPlayers g3
       then Inr (g3\<lparr>Phase := GameOver\<rparr>)
       else Inr g3)))"

definition advancePhase :: "Game \<Rightarrow> error + Game" where
  "advancePhase g =
     (let g1 = g\<lparr>Players := (\<lambda>playerID. map_option (\<lambda>player. player\<lparr>CurrentBet := 0\<rparr>)
                                              (Players g playerID)),
                 LastRaise := 0\<rparr>
      in if Phase g1 = River then endHand (g1\<lparr>Phase := Showdown\<rparr>)
         else
           let g2 = (case Phase g1 of
                       PreFlop \<Rightarrow> (dealFlop g1)\<lparr>Phase := Flop\<rparr>
                     | Flop \<Rightarrow> (dealTurn g1)\<lparr>Phase := Turn\<rparr>
                     | Turn \<Rightarrow> (dealRiver g1)\<lparr>Phase := River\<rparr>
                     | _ \<Rightarrow> g1)
           in bindE (modSeats g2 (DealerPos g2 + 1))
                (\<lambda>pos. moveToNextActivePlayer (g2\<lparr>CurrentPlayer := pos\<rparr>)))"

definition advanceGame :: "Game \<Rightarrow> error + Game" where
  "advanceGame g =
     (if length (getActivePlayers g) \<le> 1 then endHand g
      else if isBettingRoundComplete g then advancePhase g
      else moveToNextPlayer g)"

text \<open>
  \<open>processAction\<close>. An \<open>Inl\<close> other than \<open>Panic\<close> is an error return, and every error
  return comes before the first write to the game.
\<close>

definition applyAction ::
  "Game \<Rightarrow> string \<Rightarrow> Player \<Rightarrow> PlayerAction \<Rightarrow> int \<Rightarrow> error + (Game \<times> PlayerAction)" where
  "applyAction g playerID player action amount =
     (case action of
        Fold \<Rightarrow> Inr (g\<lparr>Players := (Players g)(playerID \<mapsto> FoldHand player)\<rparr>, Fold)
      | Check \<Rightarrow>
          if CurrentBet player < LastRaise g then Inl CannotCheck else Inr (g, Check)
      | Call \<Rightarrow>
          let full = wrap64 (LastRaise g - CurrentBet player);
              callAmount = (if full > ChipCount player then ChipCount player else full);
              action' = (if full > ChipCount player then AllIn else Call)
          in bindE (Bet callAmount player) (\<lambda>player'.
               Inr (g\<lparr>Players := (Players g)(playerID \<mapsto> player'),
                      Pot := wrap64 (Pot g + callAmount)\<rparr>, action'))
      | Raise \<Rightarrow>
          if amount < MinRaise g then Inl (MinimumRaiseIs (MinRaise g))
          else
            let totalBet = wrap64 (LastRaise g + amount);
                betAmount = wrap64 (totalBet - CurrentBet player)
            in if betAmount > ChipCount player then Inl InsufficientChipsForRaise
               else bindE (Bet betAmount player) (\<lambda>player'.
                      Inr (g\<lparr>Players := (Players g)(playerID \<mapsto> player'),
                             Pot := wrap64 (Pot g + betAmount),
                             LastRaise := totalBet,
                             MinRaise := amount\<rparr>, Raise))
      | AllIn \<Rightarrow>
          let allInAmount = ChipCount player
          in bindE (Bet allInAmount player) (\<lambda>player'.
               Inr (g\<lparr>Players := (Players g)(playerID \<mapsto> player'),
                      Pot := wrap64 (Pot g + allInAmount),
                      LastRaise := (if CurrentBet player' > LastRaise g then CurrentBet player'
                                    else LastRaise g)\<rparr>, AllIn))
      | OtherAction n \<Rightarrow> Inr (g, OtherAction n))"

definition recordAction :: "Game \<Rightarrow> string \<Rightarrow> PlayerAction \<Rightarrow> int \<Rightarrow> int \<Rightarrow> error + Game" where
  "recordAction g playerID action amount now =
     (case Players g playerID of
        None \<Rightarrow> Inl Panic
      | Some player \<Rightarrow>
          let actionRecord = \<lparr>PlayerID = playerID, ActionKind = action, Amount = amount, Time = now\<rparr>
          in Inr (g\<lparr>Players := (Players g)(playerID \<mapsto> player\<lparr>LastAction := Some actionRecord\<rparr>),
                    Actions := Actions g @ [actionRecord],
                    LastActivity := now\<rparr>))"

definition processAction :: "Game \<Rightarrow> string \<Rightarrow> PlayerAction \<Rightarrow> int \<Rightarrow> int \<Rightarrow> error + Game" where
  "processAction g playerID action amount now =
     (if Phase g = WaitingForPlayers \<or> Phase g = GameOver then Inl CannotActDuringThisPhase
      else if playerID \<noteq> getCurrentPlayerID g then Inl NotYourTurn
      else case Players g playerID of
             None \<Rightarrow> Inl PlayerNotInGame
           | Some player \<Rightarrow>
               if \<not> CanAct player then Inl PlayerCannotAct
               else
                 bindE (applyAction g playerID player action amount) (\<lambda>(g1, action').
                 bindE (recordAction g1 playerID action' amount now) advanceGame))"


text \<open>
  \<open>moveDealerButton\<close>: the \<open>for\<close> loop looks at no more seats than there are;
  \<open>dealerLoop k\<close> is the loop with \<open>k\<close> iterations left.
\<close>

fun dealerLoop :: "nat \<Rightarrow> Game \<Rightarrow> error + Game" where
  "dealerLoop 0 g = Inr g"
| "dealerLoop (Suc k) g =
     (if DealerPos g \<ge> length (PlayerOrder g) then Inl Panic
      else case Players g (PlayerOrder g ! DealerPos g) of
             None \<Rightarrow> Inl Panic
           | Some player \<Rightarrow>
               if IsActive player then Inr g
               else dealerLoop k (g\<lparr>DealerPos := (DealerPos g + 1) mod length (PlayerOrder g)\<rparr>))"

definition moveDealerButton :: "Game \<Rightarrow> error + Game" where
  "moveDealerButton g =
     (let n = length (PlayerOrder g)
      in if n < 2 then Inr g
         else
           bindE (dealerLoop n (g\<lparr>DealerPos := (DealerPos g + 1) mod n\<rparr>)) (\<lambda>g1.
             if n = 2 then
               Inr (g1\<lparr>SmallBlindPos := DealerPos g1, BigBlindPos := (DealerPos g1 + 1) mod n\<rparr>)
             else
               Inr (g1\<lparr>SmallBlindPos := (DealerPos g1 + 1) mod n,
                       BigBlindPos := (DealerPos g1 + 2) mod n\<rparr>)))"

text \<open>One pass of \<open>dealHoleCards\<close> over the seats.\<close>

fun dealPass :: "string list \<Rightarrow> Game \<Rightarrow> error + Game" where
  "dealPass [] g = Inr g"
| "dealPass (playerID # rest) g =
     (case Players g playerID of
        None \<Rightarrow> Inl Panic
      | Some player \<Rightarrow>
          if IsActive player then
            (let (c, d) = dealOrZero (GameDeck g)
             in dealPass rest
                  (g\<lparr>GameDeck := d,
                     Players := (Players g)(playerID \<mapsto> player\<lparr>HoleCards := HoleCards player @ [c]\<rparr>)\<rparr>))
          else dealPass rest g)"

definition dealHoleCards :: "Game \<Rightarrow> error + Game" where
  "dealHoleCards g = bindE (dealPass (PlayerOrder g) g) (\<lambda>g1. dealPass (PlayerOrder g1) g1)"

text \<open>
  Posting one blind: the amount is capped at the stack, the result of \<open>Bet\<close> is dropped,
  and the pot grows by the amount in any case.
\<close>

definition postBlind :: "string \<Rightarrow> int \<Rightarrow> Game \<Rightarrow> error + Game" where
  "postBlind playerID blind g =
     (case Players g playerID of
        None \<Rightarrow> Inl Panic
      | Some player \<Rightarrow>
          let amount = min blind (ChipCount player);
              player' = (case Bet amount player of Inl err \<Rightarrow> player | Inr p \<Rightarrow> p)
          in Inr (g\<lparr>Players := (Players g)(playerID \<mapsto> player'),
                    Pot := wrap64 (Pot g + amount)\<rparr>))"

definition postBlinds :: "Game \<Rightarrow> error + Game" where
  "postBlinds g =
     (if SmallBlindPos g \<ge> length (PlayerOrder g) \<or> BigBlindPos g \<ge> length (PlayerOrder g)
      then Inl Panic
      else
        let smallBlindPlayer = PlayerOrder g ! SmallBlindPos g;
            bigBlindPlayer = PlayerOrder g ! BigBlindPos g
        in bindE (postBlind smallBlindPlayer (SmallBlind g) g)
                 (postBlind bigBlindPlayer (BigBlind g)))"

text \<open>
  \<open>startNewHand\<close>; \<open>draw\<close> are the random draws of the shuffle in \<open>Deck.Reset\<close>.
\<close>

definition startNewHand :: "Game \<Rightarrow> (nat \<Rightarrow> nat) \<Rightarrow> error + Game" where
  "startNewHand g draw =
     (let g1 = g\<lparr>HandNumber := HandNumber g + 1, Phase := PreFlop, Pot := 0, SidePots := [],
                 CommunityCards := [], Actions := [],
                 LastRaise := BigBlind g, MinRaise := BigBlind g,
                 Players := (\<lambda>playerID. map_option ResetForNewHand (Players g playerID))\<rparr>
      in bindE (moveDealerButton g1) (\<lambda>g2.
         bindE (dealHoleCards (g2\<lparr>GameDeck := Reset draw (GameDeck g2)\<rparr>)) (\<lambda>g3.
         bindE (postBlinds g3) (\<lambda>g4.
         bindE (modSeats g4 (BigBlindPos g4 + 1)) (\<lambda>pos.
           moveToNextActivePlayer (g4\<lparr>CurrentPlayer := pos\<rparr>))))))"


definition AddPlayer :: "Game \<Rightarrow> Player \<Rightarrow> int \<Rightarrow> (nat \<Rightarrow> nat) \<Rightarrow> error + Game" where
  "AddPlayer g player now draw =
     (if numPlayers g \<ge> MaxPlayers g then Inl GameIsFull
      else if Players g (ID player) \<noteq> None then Inl PlayerAlreadyInGame
      else
        let g1 = g\<lparr>Players := (Players g)(ID player \<mapsto> player),
                   PlayerOrder := PlayerOrder g @ [ID player],
                   LastActivity := now\<rparr>
        in if numPlayers g1 \<ge> MinPlayers g1 \<and> Phase g1 = WaitingForPlayers
           then startNewHand g1 draw
           else Inr g1)"


section \<open>The state sent to clients\<close>

record ActionState =
  asAction :: PlayerAction
  asAmount :: int

record PlayerState =
  psID :: string
  psUsername :: string
  psChipCount :: int
  psHoleCards :: "Card list"
  psCurrentBet :: int
  psHasFolded :: bool
  psIsAllIn :: bool
  psSeatPosition :: int
  psConnected :: bool
  psLastAction :: "ActionState option"

record GameState =
  gsGameID :: string
  gsPhase :: GamePhase
  gsPot :: int
  gsCommunityCards :: "Card list"
  gsPlayers :: "PlayerState list"
  gsCurrentPlayer :: string
  gsHandNumber :: int
  gsLastActivity :: int
  gsCanAct :: bool

text \<open>The entry of one seat in the snapshot made for the viewer \<open>playerID\<close>.\<close>

definition playerStateFor :: "string \<Rightarrow> string \<Rightarrow> Player \<Rightarrow> PlayerState" where
  "playerStateFor playerID pid player =
     \<lparr>psID = ID player, psUsername = Username player, psChipCount = ChipCount player,
      psHoleCards = (if pid = playerID then HoleCards player else []),
      psCurrentBet = CurrentBet player, psHasFolded = HasFolded player,
      psIsAllIn = IsAllIn player, psSeatPosition = SeatPosition player,
      psConnected = Connected player,
      psLastAction = (case LastAction player of
                        None \<Rightarrow> None
                      | Some a \<Rightarrow> Some \<lparr>asAction = ActionKind a, asAmount = Amount a\<rparr>)\<rparr>"

fun playerStates :: "Game \<Rightarrow> string \<Rightarrow> string list \<Rightarrow> error + PlayerState list" where
  "playerStates g playerID [] = Inr []"
| "playerStates g playerID (pid # rest) =
     (case Players g pid of
        None \<Rightarrow> Inl Panic
      | Some player \<Rightarrow>
          bindE (playerStates g playerID rest)
            (\<lambda>states. Inr (playerStateFor playerID pid player # states)))"

definition GetGameState :: "Game \<Rightarrow> string \<Rightarrow> error + GameState" where
  "GetGameState g playerID =
     bindE (playerStates g playerID (PlayerOrder g)) (\<lambda>states.
       Inr \<lparr>gsGameID = GameID g, gsPhase = Phase g, gsPot = Pot g,
            gsCommunityCards = CommunityCards g, gsPlayers = states,
            gsCurrentPlayer = getCurrentPlayerID g, gsHandNumber = HandNumber g,
            gsLastActivity = LastActivity g,
            gsCanAct = (getCurrentPlayerID g = playerID)\<rparr>)"

section \<open>The manager (package game)\<close>

text \<open>
  \<open>players\<close> maps a player id to the list of the ids of the games the player has joined;
  a missing key reads as the empty list. Durations are in seconds, as are the readings of
  the clock.
\<close>

record Manager =
  games :: "string \<rightharpoonup> Game"
  players :: "string \<rightharpoonup> string list"
  config :: GameConfig




definition WithBlinds :: "int \<Rightarrow> int \<Rightarrow> GameConfig \<Rightarrow> GameConfig" where
  "WithBlinds smallBlind bigBlind c = c\<lparr>cfgSmallBlind := smallBlind, cfgBigBlind := bigBlind\<rparr>"

definition WithBuyIn :: "int \<Rightarrow> int \<Rightarrow> int \<Rightarrow> GameConfig \<Rightarrow> GameConfig" where
  "WithBuyIn defaultBuyIn minBuyIn maxBuyIn c =
     c\<lparr>DefaultBuyIn := defaultBuyIn, MinBuyIn := minBuyIn, MaxBuyIn := maxBuyIn\<rparr>"

definition WithPlayerLimits :: "int \<Rightarrow> int \<Rightarrow> GameConfig \<Rightarrow> GameConfig" where
  "WithPlayerLimits minPlayers maxPlayers c =
     c\<lparr>MinPlayersPerTable := minPlayers, MaxPlayersPerTable := maxPlayers\<rparr>"

definition GetGame :: "Manager \<Rightarrow> string \<Rightarrow> error + Game" where
  "GetGame m gameID = (case games m gameID of None \<Rightarrow> Inl ErrGameNotFound | Some game \<Rightarrow> Inr game)"





definition ManagerGetGameState :: "Manager \<Rightarrow> string \<Rightarrow> string \<Rightarrow> error + GameState" where
  "ManagerGetGameState m gameID playerID =
     bindE (GetGame m gameID) (\<lambda>game. GetGameState game playerID)"




section \<open>Auxiliary notions for the properties\<close>

text \<open>
  The lists of \<open>k\<close> elements chosen from a list in order of position; the closed form of
  what \<open>generateCombinations\<close> enumerates.
\<close>

fun chooseLists :: "nat \<Rightarrow> 'a list \<Rightarrow> 'a list list" where
  "chooseLists 0 xs = [[]]"
| "chooseLists (Suc k) [] = []"
| "chooseLists (Suc k) (x # xs) = map ((#) x) (chooseLists k xs) @ chooseLists (Suc k) xs"

text \<open>A card of the 52-card deck: rank 2 .. 14, suit 0 .. 3.\<close>

definition validCard :: "Card \<Rightarrow> bool" where
  "validCard c = (Two \<le> Rank c \<and> Rank c \<le> Ace \<and> Hearts \<le> Suit c \<and> Suit c \<le> Spades)"

text \<open>How many of the cards have a given rank.\<close>

definition rankCount :: "Card list \<Rightarrow> Rank \<Rightarrow> nat" where
  "rankCount cards r = length (filter (\<lambda>c. Rank c = r) cards)"

text \<open>The configuration of the tests: two to six players, blinds 50/100.\<close>

definition testConfig :: GameConfig where
  "testConfig =
     \<lparr>MaxTablesPerUser = 3, MaxPlayersPerTable = 6, MinPlayersPerTable = 2,
      DefaultBuyIn = 10000, MaxBuyIn = 50000, MinBuyIn = 2000,
      cfgSmallBlind = 50, cfgBigBlind = 100, cfgTurnTimeout = 30, DecisionTimeout = 15\<rparr>"

text \<open>A table at showdown with two seats, each holding two cards.\<close>

definition twoSeatShowdown :: Game where
  "twoSeatShowdown =
     (NewGame ''game1'' ''Test Game'' testConfig 0)
       \<lparr>Players :=
          [''player1'' \<mapsto> (NewPlayer ''player1'' ''Alice'' 10000 0)
                              \<lparr>HoleCards := [NewCard Ace Spades, NewCard Ace Hearts]\<rparr>,
           ''player2'' \<mapsto> (NewPlayer ''player2'' ''Bob'' 10000 1)
                              \<lparr>HoleCards := [NewCard King Spades, NewCard King Hearts]\<rparr>],
        PlayerOrder := [''player1'', ''player2''],
        Phase := Showdown\<rparr>"

text \<open>
  The words of the spec on side pots (section 4.4, Settlement), for comparison with
  \<open>calculateSidePots\<close>: the distinct all-in contribution amounts of the hand, lowest first;
  the sum of all contributions up to a threshold; the players that have not folded and
  have contributed at least a threshold.
\<close>

definition seatedPlayers :: "Game \<Rightarrow> Player list" where
  "seatedPlayers g = concat (map (\<lambda>playerID. case Players g playerID of
                                                None \<Rightarrow> []
                                              | Some player \<Rightarrow> [player])
                                 (PlayerOrder g))"

definition specThresholds :: "Game \<Rightarrow> int list" where
  "specThresholds g = remdups (sort (map TotalBet (filter IsAllIn (seatedPlayers g))))"

definition specTierPot :: "Game \<Rightarrow> int \<Rightarrow> int" where
  "specTierPot g threshold =
     sum_list (map (\<lambda>player. min (TotalBet player) threshold) (seatedPlayers g))"

definition specTierEligible :: "Game \<Rightarrow> int \<Rightarrow> string list" where
  "specTierEligible g threshold =
     map ID (filter (\<lambda>player. \<not> HasFolded player \<and> TotalBet player \<ge> threshold)
                    (seatedPlayers g))"

text \<open>
  Three players with stacks 5000, 2000 and 500 at a table that starts with three; the
  deck is left in the order of \<open>NewDeck\<close> (every draw of the shuffle swaps a card with
  itself).
\<close>

definition threeConfig :: GameConfig where
  "threeConfig = testConfig\<lparr>MinPlayersPerTable := 3\<rparr>"

definition threeJoined :: "error + Game" where
  "threeJoined =
     bindE (AddPlayer (NewGame ''game1'' ''Test Game'' threeConfig 0)
              (NewPlayer ''big'' ''Alice'' 5000 0) 1 (\<lambda>i. i)) (\<lambda>g1.
     bindE (AddPlayer g1 (NewPlayer ''mid'' ''Bob'' 2000 1) 2 (\<lambda>i. i)) (\<lambda>g2.
       AddPlayer g2 (NewPlayer ''short'' ''Carol'' 500 2) 3 (\<lambda>i. i)))"

text \<open>
  The hand: the 2000 stack goes all-in, the 500 stack calls all-in, the 5000 stack calls
  and then checks the flop, the turn and the river.
\<close>

definition threeAllInHand :: "error + Game" where
  "threeAllInHand =
     bindE threeJoined (\<lambda>g3.
     bindE (processAction g3 ''mid'' AllIn 0 4) (\<lambda>g4.
     bindE (processAction g4 ''short'' Call 0 5) (\<lambda>g5.
     bindE (processAction g5 ''big'' Call 0 6) (\<lambda>g6.
     bindE (processAction g6 ''big'' Check 0 7) (\<lambda>g7.
     bindE (processAction g7 ''big'' Check 0 8) (\<lambda>g8.
       processAction g8 ''big'' Check 0 9))))))"

definition threeSettled :: Game where
  "threeSettled =
     (case threeAllInHand of
        Inl err \<Rightarrow> NewGame ''game1'' ''Test Game'' threeConfig 0
      | Inr g \<Rightarrow> g)"

text \<open>The chips of a player of the game (0 for an id that is not at the table).\<close>

definition chipsOf :: "Game \<Rightarrow> string \<Rightarrow> int" where
  "chipsOf g playerID = (case Players g playerID of None \<Rightarrow> 0 | Some player \<Rightarrow> ChipCount player)"

text \<open>
  What the chip economy and the seating of a player depend on: the stack, the bet of the
  street and whether the player is connected.
\<close>

definition stake :: "Player \<Rightarrow> int \<times> int \<times> bool" where
  "stake player = (ChipCount player, CurrentBet player, Connected player)"

definition stakes :: "Game \<Rightarrow> string \<Rightarrow> (int \<times> int \<times> bool) option" where
  "stakes g playerID = map_option stake (Players g playerID)"

text \<open>The chips in the stacks of the seated players.\<close>

definition totalChips :: "Game \<Rightarrow> int" where
  "totalChips g = sum_list (map (chipsOf g) (PlayerOrder g))"



text \<open>The part of a game that the chip economy and the seating depend on.\<close>

definition core ::
  "Game \<Rightarrow> (string \<Rightarrow> (int \<times> int \<times> bool) option) \<times> string list \<times> int \<times> int \<times> int \<times> int \<times> int" where
  "core g = (stakes g, PlayerOrder g, Pot g, LastRaise g, MinRaise g, SmallBlind g, BigBlind g)"

text \<open>The seat order, and for each player whether the player is connected.\<close>

definition seats :: "Game \<Rightarrow> string list \<times> (string \<Rightarrow> bool option)" where
  "seats g = (PlayerOrder g, \<lambda>playerID. map_option Connected (Players g playerID))"






section \<open>Basic facts about the model\<close>

lemmas rank_defs = Two_def Three_def Four_def Five_def Six_def Seven_def Eight_def
  Nine_def Ten_def Jack_def Queen_def King_def Ace_def

lemmas suit_defs = Hearts_def Diamonds_def Clubs_def Spades_def

lemma bindE_Inr [simp]: "bindE (Inr x) f = f x"
  by (simp add: bindE_def)

lemma bindE_Inl [simp]: "bindE (Inl err) f = Inl err"
  by (simp add: bindE_def)

lemma bindE_eq_Inr: "bindE r f = Inr y \<longleftrightarrow> (\<exists>x. r = Inr x \<and> f x = Inr y)"
  by (cases r) simp_all

lemma length_allCards [simp]: "length allCards = 52"
  by (simp add: allCards_def rank_defs suit_defs upto.simps)

lemma length_shuffleFrom [simp]: "length (shuffleFrom i draw cs) = length cs"
  by (induction i arbitrary: cs) (simp_all add: Let_def)

lemma length_Reset [simp]: "length (DeckCards (Reset draw d)) = 52"
  by (simp add: Reset_def Shuffle_def)

lemma Deal_pos:
  "0 < length (DeckCards d) \<Longrightarrow>
   Deal d = (Inr (hd (DeckCards d)), d\<lparr>DeckCards := tl (DeckCards d)\<rparr>)"
  by (cases "DeckCards d") (simp_all add: Deal_def)

lemma dealOrZero_pos:
  "0 < length (DeckCards d) \<Longrightarrow>
   dealOrZero d = (hd (DeckCards d), d\<lparr>DeckCards := tl (DeckCards d)\<rparr>)"
  by (simp add: dealOrZero_def Deal_pos)

section \<open>What settlement changes\<close>

lemma eligibleLoop_filter:
  "\<forall>pid \<in> set ids. Players g pid \<noteq> None \<Longrightarrow>
   eligibleLoop g ids acc =
     Inr (acc @ filter (\<lambda>pid. case Players g pid of None \<Rightarrow> False
                                | Some player \<Rightarrow> \<not> HasFolded player) ids)"
  by (induction ids arbitrary: acc) auto

lemma winnersLoop_subset:
  "winnersLoop g ids best ws = Inr ws' \<Longrightarrow> set ws' \<subseteq> set ws \<union> set ids"
proof (induction ids arbitrary: best ws)
  case Nil
  then show ?case by simp
next
  case (Cons pid rest)
  from Cons.prems show ?case
    by (auto simp: Let_def split: option.splits if_splits sum.splits dest!: Cons.IH)
qed

lemma determineWinners_subset:
  "determineWinners g ids = Inr ws \<Longrightarrow> set ws \<subseteq> set ids"
  using winnersLoop_subset [of g ids None "[]" ws]
  by (auto simp: determineWinners_def split: if_splits)

lemma addChips_frame:
  "addChips w share g = Inr g' \<Longrightarrow>
   \<exists>ps. g' = g\<lparr>Players := ps\<rparr> \<and> (\<forall>pid. pid \<noteq> w \<longrightarrow> ps pid = Players g pid)"
  by (auto simp: addChips_def split: option.splits)

lemma payWinners_frame:
  "payWinners ws i potShare remainder g = Inr g' \<Longrightarrow>
   \<exists>ps. g' = g\<lparr>Players := ps\<rparr> \<and> (\<forall>pid. pid \<notin> set ws \<longrightarrow> ps pid = Players g pid)"
proof (induction ws arbitrary: i g)
  case Nil
  then have "g' = g\<lparr>Players := Players g\<rparr>" by simp
  then show ?case by blast
next
  case (Cons w rest)
  from Cons.prems obtain share g1 where
    a: "addChips w share g = Inr g1"
    and r: "payWinners rest (Suc i) potShare remainder g1 = Inr g'"
    by (auto simp: Let_def bindE_eq_Inr)
  from addChips_frame [OF a] obtain ps1 where
    g1: "g1 = g\<lparr>Players := ps1\<rparr>" and f1: "\<forall>pid. pid \<noteq> w \<longrightarrow> ps1 pid = Players g pid" by blast
  from Cons.IH [OF r] obtain ps where
    g': "g' = g1\<lparr>Players := ps\<rparr>" and f: "\<forall>pid. pid \<notin> set rest \<longrightarrow> ps pid = Players g1 pid"
    by blast
  from g1 g' have "g' = g\<lparr>Players := ps\<rparr>" by simp
  moreover from g1 f1 f have "\<forall>pid. pid \<notin> set (w # rest) \<longrightarrow> ps pid = Players g pid" by simp
  ultimately show ?case by blast
qed

lemma payPots_frame:
  "payPots pots ws g = Inr g' \<Longrightarrow>
   \<exists>ps. g' = g\<lparr>Players := ps\<rparr> \<and> (\<forall>pid. pid \<notin> set ws \<longrightarrow> ps pid = Players g pid)"
proof (induction pots arbitrary: g)
  case Nil
  then have "g' = g\<lparr>Players := Players g\<rparr>" by simp
  then show ?case by blast
next
  case (Cons pot rest)
  from Cons.prems obtain potShare remainder g1 where
    a: "payWinners ws 0 potShare remainder g = Inr g1"
    and r: "payPots rest ws g1 = Inr g'"
    by (auto simp: bindE_eq_Inr)
  from payWinners_frame [OF a] obtain ps1 where
    g1: "g1 = g\<lparr>Players := ps1\<rparr>" and f1: "\<forall>pid. pid \<notin> set ws \<longrightarrow> ps1 pid = Players g pid"
    by blast
  from Cons.IH [OF r] obtain ps where
    g': "g' = g1\<lparr>Players := ps\<rparr>" and f: "\<forall>pid. pid \<notin> set ws \<longrightarrow> ps pid = Players g1 pid"
    by blast
  from g1 g' have "g' = g\<lparr>Players := ps\<rparr>" by simp
  moreover from g1 f1 f have "\<forall>pid. pid \<notin> set ws \<longrightarrow> ps pid = Players g pid" by simp
  ultimately show ?case by blast
qed

lemma getActivePlayers_subset: "set (getActivePlayers g) \<subseteq> set (PlayerOrder g)"
  by (auto simp: getActivePlayers_def)

lemma distributePots_frame:
  assumes "distributePots g = Inr g'"
  shows "\<exists>ps pot. g' = g\<lparr>Players := ps, Pot := pot\<rparr>
         \<and> (\<forall>pid. pid \<notin> set (getActivePlayers g) \<longrightarrow> ps pid = Players g pid)"
proof (cases "getActivePlayers g = []")
  case True
  with assms have "g' = g\<lparr>Players := Players g, Pot := Pot g\<rparr>" by (simp add: distributePots_def)
  then show ?thesis by blast
next
  case ne: False
  show ?thesis
  proof (cases "length (getActivePlayers g) = 1")
    case True
    with assms ne obtain g1 where a: "addChips (getActivePlayers g ! 0) (Pot g) g = Inr g1"
      and g': "g' = g1\<lparr>Pot := 0\<rparr>"
      by (auto simp: distributePots_def Let_def bindE_eq_Inr)
    from ne have m: "getActivePlayers g ! 0 \<in> set (getActivePlayers g)"
      by (cases "getActivePlayers g") simp_all
    from addChips_frame [OF a] obtain ps where
      g1: "g1 = g\<lparr>Players := ps\<rparr>"
      and f: "\<forall>pid. pid \<noteq> getActivePlayers g ! 0 \<longrightarrow> ps pid = Players g pid" by (metis subsetD)
    from g1 g' have "g' = g\<lparr>Players := ps, Pot := 0\<rparr>" by simp
    moreover from f m have "\<forall>pid. pid \<notin> set (getActivePlayers g) \<longrightarrow> ps pid = Players g pid"
      by metis
    ultimately show ?thesis by blast
  next
    case False
    with assms ne obtain ws g1 where
      w: "determineWinners g (getActivePlayers g) = Inr ws"
      and p: "payPots (SidePots g) ws g = Inr g1" and g': "g' = g1\<lparr>Pot := 0\<rparr>"
      by (auto simp: distributePots_def Let_def bindE_eq_Inr)
    from payPots_frame [OF p] obtain ps where
      g1: "g1 = g\<lparr>Players := ps\<rparr>"
      and f: "\<forall>pid. pid \<notin> set ws \<longrightarrow> ps pid = Players g pid" by (metis subsetD)
    from g1 g' have "g' = g\<lparr>Players := ps, Pot := 0\<rparr>" by simp
    moreover from f determineWinners_subset [OF w]
    have "\<forall>pid. pid \<notin> set (getActivePlayers g) \<longrightarrow> ps pid = Players g pid" by (metis subsetD)
    ultimately show ?thesis by blast
  qed
qed

section \<open>Steps that leave chips and seats alone\<close>



lemma core_CurrentPlayer [simp]: "core (g\<lparr>CurrentPlayer := pos\<rparr>) = core g"
  by (simp add: core_def stakes_def fun_eq_iff)

lemma core_Phase [simp]: "core (g\<lparr>Phase := ph\<rparr>) = core g"
  by (simp add: core_def stakes_def fun_eq_iff)

lemma core_SidePots [simp]: "core (g\<lparr>SidePots := sp\<rparr>) = core g"
  by (simp add: core_def stakes_def fun_eq_iff)

lemma core_deal [simp]:
  "core (dealFlop g) = core g" "core (dealTurn g) = core g" "core (dealRiver g) = core g"
  by (simp_all add: core_def stakes_def fun_eq_iff dealFlop_def dealTurn_def dealRiver_def burn_def
      dealCommunityCard_def Let_def split: prod.splits)








lemma core_positions [simp]:
  "core (g\<lparr>DealerPos := d\<rparr>) = core g" "core (g\<lparr>SmallBlindPos := s\<rparr>) = core g"
  "core (g\<lparr>BigBlindPos := b\<rparr>) = core g" "core (g\<lparr>GameDeck := dk\<rparr>) = core g"
  "core (g\<lparr>CommunityCards := cs\<rparr>) = core g" "core (g\<lparr>Actions := as\<rparr>) = core g"
  "core (g\<lparr>LastActivity := t\<rparr>) = core g" "core (g\<lparr>HandNumber := h\<rparr>) = core g"
  by (simp_all add: core_def stakes_def fun_eq_iff)








section \<open>Bets and payments leave the seats alone\<close>







lemma seats_Pot [simp]: "seats (g\<lparr>Pot := x\<rparr>) = seats g"
  by (simp add: seats_def)













































section \<open>Properties of the deck\<close>


lemma dealLoop_enough:
  "k \<le> length (DeckCards d) \<Longrightarrow>
   dealLoop k d cards =
     (Inr (cards @ take k (DeckCards d)), d\<lparr>DeckCards := drop k (DeckCards d)\<rparr>)"
proof (induction k arbitrary: d cards)
  case 0
  then show ?case by simp
next
  case (Suc k)
  then obtain c rest where cs: "DeckCards d = c # rest"
    by (cases "DeckCards d") auto
  with Suc.prems have "k \<le> length (DeckCards (d\<lparr>DeckCards := rest\<rparr>))" by simp
  from Suc.IH [OF this] cs show ?case by (simp add: Deal_def)
qed

text \<open>
  Claim C9. \<open>Deal\<close> on a deck with no cards returns an error and the same deck.
  \<open>DealMultiple n\<close> on a deck with fewer than \<open>n\<close> cards returns an error and the same
  deck; on a deck with at least \<open>n\<close> cards (\<open>n\<close> a count, so not negative) it returns
  exactly the first \<open>n\<close> cards and the deck without them.
\<close>

theorem deal_all_or_nothing:
  "(DeckCards d = [] \<longrightarrow> Deal d = (Inl EmptyDeck, d))
   \<and> (int (length (DeckCards d)) < n \<longrightarrow> DealMultiple n d = (Inl InsufficientCards, d))
   \<and> (0 \<le> n \<and> n \<le> int (length (DeckCards d)) \<longrightarrow>
        DealMultiple n d =
          (Inr (take (nat n) (DeckCards d)), d\<lparr>DeckCards := drop (nat n) (DeckCards d)\<rparr>)
        \<and> length (take (nat n) (DeckCards d)) = nat n
        \<and> length (drop (nat n) (DeckCards d)) = length (DeckCards d) - nat n)"
proof (intro conjI impI)
  assume "DeckCards d = []"
  then show "Deal d = (Inl EmptyDeck, d)" by (simp add: Deal_def)
next
  assume "int (length (DeckCards d)) < n"
  then show "DealMultiple n d = (Inl InsufficientCards, d)" by (simp add: DealMultiple_def)
next
  assume n: "0 \<le> n \<and> n \<le> int (length (DeckCards d))"
  then have k: "nat n \<le> length (DeckCards d)" by linarith
  from n dealLoop_enough [OF k, of "[]"]
  show "DealMultiple n d =
          (Inr (take (nat n) (DeckCards d)), d\<lparr>DeckCards := drop (nat n) (DeckCards d)\<rparr>)"
    by (simp add: DealMultiple_def)
  from k show "length (take (nat n) (DeckCards d)) = nat n" by simp
  show "length (drop (nat n) (DeckCards d)) = length (DeckCards d) - nat n" by simp
qed

theorem deal_all_or_nothing_witness:
  "Deal \<lparr>DeckCards = []\<rparr> = (Inl EmptyDeck, \<lparr>DeckCards = []\<rparr>)
   \<and> DealMultiple 3 \<lparr>DeckCards = [NewCard Ace Spades, NewCard King Hearts]\<rparr>
       = (Inl InsufficientCards, \<lparr>DeckCards = [NewCard Ace Spades, NewCard King Hearts]\<rparr>)
   \<and> DealMultiple 1 \<lparr>DeckCards = [NewCard Ace Spades, NewCard King Hearts]\<rparr>
       = (Inr [NewCard Ace Spades], \<lparr>DeckCards = [NewCard King Hearts]\<rparr>)"
  using deal_all_or_nothing [of "\<lparr>DeckCards = []\<rparr>" 0]
    deal_all_or_nothing [of "\<lparr>DeckCards = [NewCard Ace Spades, NewCard King Hearts]\<rparr>" 3]
    deal_all_or_nothing [of "\<lparr>DeckCards = [NewCard Ace Spades, NewCard King Hearts]\<rparr>" 1]
  by simp

section \<open>Properties of hand evaluation\<close>

lemma backtrack_choose:
  "length cur \<le> r \<Longrightarrow> backtrack r rest cur = map ((@) cur) (chooseLists (r - length cur) rest)"
  "length cur < r \<Longrightarrow> backtrackLoop r rest cur = map ((@) cur) (chooseLists (r - length cur) rest)"
proof (induction r rest cur and r rest cur rule: backtrack_backtrackLoop.induct)
  case (1 r rest current)
  then show ?case by (cases "length current = r") auto
next
  case (2 r current)
  then obtain k where "r - length current = Suc k" by (cases "r - length current") auto
  then show ?case by simp
next
  case (3 r c cs current)
  then obtain k where k: "r - length current = Suc k" by (cases "r - length current") auto
  then have k': "r - Suc (length current) = k" by simp
  from 3 k k' show ?case by (simp add: comp_def)
qed

lemma length_chooseLists: "length (chooseLists k xs) = length xs choose k"
  by (induction k xs rule: chooseLists.induct) auto

lemma set_chooseLists: "set (chooseLists k xs) = {ys. subseq ys xs \<and> length ys = k}"
  by (induction k xs rule: chooseLists.induct) (auto simp: subseq_Cons2_iff list_emb_Cons_iff2 elim: list_emb.cases)

lemma generateCombinations_chooseLists: "generateCombinations cards r = chooseLists r cards"
proof -
  have "map ((@) []) (chooseLists r cards) = chooseLists r cards"
    by (induction "chooseLists r cards") (simp_all add: map_idI)
  with backtrack_choose(1) [of "[]" r cards] show ?thesis
    by (simp add: generateCombinations_def del: backtrack.simps)
qed

lemma bestLoop_returns:
  "\<forall>c \<in> set combos. \<exists>h. NewHand c = Inr h \<Longrightarrow>
   \<exists>b. bestLoop combos best = Inr b \<and> (combos \<noteq> [] \<or> best \<noteq> None \<longrightarrow> b \<noteq> None)"
proof (induction combos arbitrary: best)
  case Nil
  then show ?case by simp
next
  case (Cons c cs)
  then obtain h where h: "NewHand c = Inr h" by auto
  from Cons have rest: "\<forall>c \<in> set cs. \<exists>h. NewHand c = Inr h" by simp
  show ?case
  proof (cases best)
    case None
    with h Cons.IH [OF rest, of "Some h"] show ?thesis by auto
  next
    case (Some b0)
    with h Cons.IH [OF rest, of "Some h"] Cons.IH [OF rest, of "Some b0"] show ?thesis by auto
  qed
qed

lemma bestLoop_Some:
  "bestLoop combos (Some b0) = Inr (Some b) \<Longrightarrow>
   (b = b0 \<and> (\<forall>c \<in> set combos. \<exists>h. NewHand c = Inr h \<and> Value h \<le> Value b))
   \<or> (\<exists>pre combo post. combos = pre @ combo # post \<and> NewHand combo = Inr b
        \<and> Value b0 < Value b
        \<and> (\<forall>c \<in> set pre. \<exists>h. NewHand c = Inr h \<and> Value h < Value b)
        \<and> (\<forall>c \<in> set post. \<exists>h. NewHand c = Inr h \<and> Value h \<le> Value b))"
proof (induction combos arbitrary: b0)
  case Nil
  then show ?case by simp
next
  case (Cons c cs)
  from Cons.prems obtain h where h: "NewHand c = Inr h" by (auto split: sum.splits)
  show ?case
  proof (cases "Value h > Value b0")
    case True
    with Cons.prems h have "bestLoop cs (Some h) = Inr (Some b)" by (simp add: CompareHands_def)
    from Cons.IH [OF this] show ?thesis
    proof
      assume a: "b = h \<and> (\<forall>c \<in> set cs. \<exists>h. NewHand c = Inr h \<and> Value h \<le> Value b)"
      with h True have "c # cs = [] @ c # cs \<and> NewHand c = Inr b \<and> Value b0 < Value b
        \<and> (\<forall>c \<in> set []. \<exists>h. NewHand c = Inr h \<and> Value h < Value b)
        \<and> (\<forall>c \<in> set cs. \<exists>h. NewHand c = Inr h \<and> Value h \<le> Value b)" by auto
      then show ?thesis by blast
    next
      assume "\<exists>pre combo post. cs = pre @ combo # post \<and> NewHand combo = Inr b
        \<and> Value h < Value b
        \<and> (\<forall>c \<in> set pre. \<exists>h. NewHand c = Inr h \<and> Value h < Value b)
        \<and> (\<forall>c \<in> set post. \<exists>h. NewHand c = Inr h \<and> Value h \<le> Value b)"
      then obtain pre combo post where p: "cs = pre @ combo # post" "NewHand combo = Inr b"
        "Value h < Value b" "\<forall>c \<in> set pre. \<exists>h. NewHand c = Inr h \<and> Value h < Value b"
        "\<forall>c \<in> set post. \<exists>h. NewHand c = Inr h \<and> Value h \<le> Value b" by blast
      with h True have "c # cs = (c # pre) @ combo # post \<and> NewHand combo = Inr b
        \<and> Value b0 < Value b
        \<and> (\<forall>c \<in> set (c # pre). \<exists>h. NewHand c = Inr h \<and> Value h < Value b)
        \<and> (\<forall>c \<in> set post. \<exists>h. NewHand c = Inr h \<and> Value h \<le> Value b)" by auto
      then show ?thesis by blast
    qed
  next
    case False
    with Cons.prems h have "bestLoop cs (Some b0) = Inr (Some b)"
      by (simp add: CompareHands_def split: if_splits)
    from Cons.IH [OF this] show ?thesis
    proof
      assume "b = b0 \<and> (\<forall>c \<in> set cs. \<exists>h. NewHand c = Inr h \<and> Value h \<le> Value b)"
      with h False show ?thesis by auto
    next
      assume "\<exists>pre combo post. cs = pre @ combo # post \<and> NewHand combo = Inr b
        \<and> Value b0 < Value b
        \<and> (\<forall>c \<in> set pre. \<exists>h. NewHand c = Inr h \<and> Value h < Value b)
        \<and> (\<forall>c \<in> set post. \<exists>h. NewHand c = Inr h \<and> Value h \<le> Value b)"
      then obtain pre combo post where p: "cs = pre @ combo # post" "NewHand combo = Inr b"
        "Value b0 < Value b" "\<forall>c \<in> set pre. \<exists>h. NewHand c = Inr h \<and> Value h < Value b"
        "\<forall>c \<in> set post. \<exists>h. NewHand c = Inr h \<and> Value h \<le> Value b" by blast
      with h False have "c # cs = (c # pre) @ combo # post \<and> NewHand combo = Inr b
        \<and> Value b0 < Value b
        \<and> (\<forall>c \<in> set (c # pre). \<exists>h. NewHand c = Inr h \<and> Value h < Value b)
        \<and> (\<forall>c \<in> set post. \<exists>h. NewHand c = Inr h \<and> Value h \<le> Value b)" by auto
      then show ?thesis by blast
    qed
  qed
qed

lemma bestLoop_first_max:
  "bestLoop combos None = Inr (Some b) \<Longrightarrow>
   \<exists>pre combo post. combos = pre @ combo # post \<and> NewHand combo = Inr b
        \<and> (\<forall>c \<in> set pre. \<exists>h. NewHand c = Inr h \<and> Value h < Value b)
        \<and> (\<forall>c \<in> set post. \<exists>h. NewHand c = Inr h \<and> Value h \<le> Value b)"
proof (cases combos)
  case Nil
  assume "bestLoop combos None = Inr (Some b)"
  with Nil show ?thesis by simp
next
  case (Cons c cs)
  assume a: "bestLoop combos None = Inr (Some b)"
  with Cons obtain h where h: "NewHand c = Inr h" by (auto split: sum.splits)
  with a Cons have "bestLoop cs (Some h) = Inr (Some b)" by simp
  from bestLoop_Some [OF this] show ?thesis
  proof
    assume "b = h \<and> (\<forall>c \<in> set cs. \<exists>h. NewHand c = Inr h \<and> Value h \<le> Value b)"
    with h Cons have "combos = [] @ c # cs \<and> NewHand c = Inr b
        \<and> (\<forall>c \<in> set []. \<exists>h. NewHand c = Inr h \<and> Value h < Value b)
        \<and> (\<forall>c \<in> set cs. \<exists>h. NewHand c = Inr h \<and> Value h \<le> Value b)" by auto
    then show ?thesis by blast
  next
    assume "\<exists>pre combo post. cs = pre @ combo # post \<and> NewHand combo = Inr b
        \<and> Value h < Value b
        \<and> (\<forall>c \<in> set pre. \<exists>h. NewHand c = Inr h \<and> Value h < Value b)
        \<and> (\<forall>c \<in> set post. \<exists>h. NewHand c = Inr h \<and> Value h \<le> Value b)"
    then obtain pre combo post where p: "cs = pre @ combo # post" "NewHand combo = Inr b"
        "Value h < Value b" "\<forall>c \<in> set pre. \<exists>h. NewHand c = Inr h \<and> Value h < Value b"
        "\<forall>c \<in> set post. \<exists>h. NewHand c = Inr h \<and> Value h \<le> Value b" by blast
    with h Cons have "combos = (c # pre) @ combo # post \<and> NewHand combo = Inr b
        \<and> (\<forall>c \<in> set (c # pre). \<exists>h. NewHand c = Inr h \<and> Value h < Value b)
        \<and> (\<forall>c \<in> set post. \<exists>h. NewHand c = Inr h \<and> Value h \<le> Value b)" by auto
    then show ?thesis by blast
  qed
qed


lemma tally_counts:
  "\<forall>c \<in> set cards. 0 \<le> Rank c \<and> Rank c < int (length ranks)
                   \<and> 0 \<le> Suit c \<and> Suit c < int (length suits) \<Longrightarrow>
   \<exists>ranks' suits'. tally cards ranks suits = Inr (ranks', suits')
     \<and> length ranks' = length ranks \<and> length suits' = length suits
     \<and> (\<forall>i < length ranks. ranks' ! i = ranks ! i + int (rankCount cards (int i)))"
proof (induction cards arbitrary: ranks suits)
  case Nil
  then show ?case by (simp add: rankCount_def)
next
  case (Cons c cs)
  let ?ranks = "ranks[nat (Rank c) := ranks ! nat (Rank c) + 1]"
  let ?suits = "suits[nat (Suit c) := suits ! nat (Suit c) + 1]"
  from Cons.prems have c: "0 \<le> Rank c" "Rank c < int (length ranks)"
    "0 \<le> Suit c" "Suit c < int (length suits)" by simp_all
  from Cons.prems have "\<forall>c \<in> set cs. 0 \<le> Rank c \<and> Rank c < int (length ?ranks)
                   \<and> 0 \<le> Suit c \<and> Suit c < int (length ?suits)" by simp
  from Cons.IH [OF this] obtain ranks' suits' where
    t: "tally cs ?ranks ?suits = Inr (ranks', suits')"
    and l: "length ranks' = length ranks" "length suits' = length suits"
    and n: "\<forall>i < length ranks. ranks' ! i = ?ranks ! i + int (rankCount cs (int i))"
    by auto
  have "\<forall>i < length ranks. ranks' ! i = ranks ! i + int (rankCount (c # cs) (int i))"
  proof (intro allI impI)
    fix i assume i: "i < length ranks"
    with n have "ranks' ! i = ?ranks ! i + int (rankCount cs (int i))" by simp
    with i c show "ranks' ! i = ranks ! i + int (rankCount (c # cs) (int i))"
      by (cases "i = nat (Rank c)") (auto simp: rankCount_def)
  qed
  with t l c show ?case by simp
qed

lemma rankCount_two: "p \<noteq> q \<Longrightarrow> rankCount cs p + rankCount cs q \<le> length cs"
  by (induction cs) (auto simp: rankCount_def)

lemma rankCount_three:
  "p \<noteq> q \<Longrightarrow> p \<noteq> r \<Longrightarrow> q \<noteq> r \<Longrightarrow> rankCount cs p + rankCount cs q + rankCount cs r \<le> length cs"
  by (induction cs) (auto simp: rankCount_def)

lemma rankCount_all: "\<forall>c \<in> set cs. Rank c = p \<Longrightarrow> rankCount cs p = length cs"
  by (induction cs) (auto simp: rankCount_def)

lemma rankCount_either:
  "p \<noteq> q \<Longrightarrow> \<forall>c \<in> set cs. Rank c = p \<or> Rank c = q \<Longrightarrow> rankCount cs p + rankCount cs q = length cs"
  by (induction cs) (auto simp: rankCount_def)

lemma rankCount_pos: "c \<in> set cs \<Longrightarrow> 0 < rankCount cs (Rank c)"
  by (induction cs) (auto simp: rankCount_def)

lemma set_ranksDown: "set ranksDown = {r. Two \<le> r \<and> r \<le> Ace}"
  by (auto simp: ranksDown_def)

lemma distinct_ranksDown: "distinct ranksDown"
  by (simp add: ranksDown_def)

lemma kicker_beside_quads:
  assumes len: "length cards = 5" and valid: "\<forall>c \<in> set cards. validCard c"
    and quads: "length (filter (\<lambda>r. rankCount cards r = 4) ranksDown) = 1"
  shows "filter (\<lambda>r. rankCount cards r = 1) ranksDown \<noteq> []"
proof -
  from quads obtain q where "q \<in> set (filter (\<lambda>r. rankCount cards r = 4) ranksDown)"
    by (cases "filter (\<lambda>r. rankCount cards r = 4) ranksDown") auto
  then have q: "rankCount cards q = 4" by simp
  have "\<exists>c \<in> set cards. Rank c \<noteq> q"
  proof (rule ccontr)
    assume "\<not> (\<exists>c \<in> set cards. Rank c \<noteq> q)"
    then have "rankCount cards q = length cards" by (intro rankCount_all) simp
    with q len show False by simp
  qed
  then obtain c where c: "c \<in> set cards" "Rank c \<noteq> q" by blast
  from rankCount_two [of "Rank c" q cards] c q len have "rankCount cards (Rank c) \<le> 1" by simp
  with rankCount_pos [OF c(1)] have "rankCount cards (Rank c) = 1" by simp
  moreover from valid c have "Rank c \<in> set ranksDown" by (simp add: set_ranksDown validCard_def)
  ultimately show ?thesis by (auto simp: filter_empty_conv)
qed

lemma kicker_beside_two_pairs:
  assumes len: "length cards = 5" and valid: "\<forall>c \<in> set cards. validCard c"
    and pairs: "length (filter (\<lambda>r. rankCount cards r = 2) ranksDown) = 2"
  shows "filter (\<lambda>r. rankCount cards r = 1) ranksDown \<noteq> []"
proof -
  from pairs obtain p q where pq: "filter (\<lambda>r. rankCount cards r = 2) ranksDown = [p, q]"
    by (cases "filter (\<lambda>r. rankCount cards r = 2) ranksDown" rule: list.exhaust; simp)
       (metis length_0_conv length_Suc_conv)
  have "distinct (filter (\<lambda>r. rankCount cards r = 2) ranksDown)"
    using distinct_ranksDown by simp
  with pq have ne: "p \<noteq> q" by simp
  have "p \<in> set (filter (\<lambda>r. rankCount cards r = 2) ranksDown)"
    "q \<in> set (filter (\<lambda>r. rankCount cards r = 2) ranksDown)" using pq by simp_all
  then have cnt: "rankCount cards p = 2" "rankCount cards q = 2" by simp_all
  have "\<exists>c \<in> set cards. Rank c \<noteq> p \<and> Rank c \<noteq> q"
  proof (rule ccontr)
    assume "\<not> (\<exists>c \<in> set cards. Rank c \<noteq> p \<and> Rank c \<noteq> q)"
    then have "\<forall>c \<in> set cards. Rank c = p \<or> Rank c = q" by blast
    from rankCount_either [OF ne this] cnt len show False by simp
  qed
  then obtain c where c: "c \<in> set cards" "Rank c \<noteq> p" "Rank c \<noteq> q" by blast
  from rankCount_three [of "Rank c" p q cards] c ne cnt len
  have "rankCount cards (Rank c) \<le> 1" by simp
  with rankCount_pos [OF c(1)] have "rankCount cards (Rank c) = 1" by simp
  moreover from valid c have "Rank c \<in> set ranksDown" by (simp add: set_ranksDown validCard_def)
  ultimately show ?thesis by (auto simp: filter_empty_conv)
qed

lemma ranksWithCount_tally:
  assumes "length ranks' = 15"
    and "\<forall>i < 15. ranks' ! i = int (rankCount cards (int i))"
  shows "ranksWithCount ranks' (int n) = filter (\<lambda>r. rankCount cards r = n) ranksDown"
  unfolding ranksWithCount_def
proof (rule filter_cong [OF refl])
  fix r assume "r \<in> set ranksDown"
  then have r: "2 \<le> r" "r \<le> 14" by (simp_all add: set_ranksDown rank_defs)
  then have "nat r < 15" by simp
  with assms have "ranks' ! nat r = int (rankCount cards (int (nat r)))" by simp
  with r show "(ranks' ! nat r = int n) = (rankCount cards r = n)" by simp
qed

lemma evaluate_returns:
  assumes len: "length cards = 5" and valid: "\<forall>c \<in> set cards. validCard c"
  shows "\<exists>h. evaluate cards = Inr h"
proof -
  from valid have "\<forall>c \<in> set cards. 0 \<le> Rank c \<and> Rank c < int (length (replicate 15 (0::int)))
                   \<and> 0 \<le> Suit c \<and> Suit c < int (length (replicate 4 (0::int)))"
    by (auto simp: validCard_def rank_defs suit_defs)
  from tally_counts [OF this] obtain ranks' suits' where
    t: "tally cards (replicate 15 0) (replicate 4 0) = Inr (ranks', suits')"
    and l: "length ranks' = 15"
    and n: "\<forall>i < 15. ranks' ! i = int (rankCount cards (int i))"
    by auto
  have rw: "ranksWithCount ranks' 1 = filter (\<lambda>r. rankCount cards r = 1) ranksDown"
    "ranksWithCount ranks' 2 = filter (\<lambda>r. rankCount cards r = 2) ranksDown"
    "ranksWithCount ranks' 4 = filter (\<lambda>r. rankCount cards r = 4) ranksDown"
    using ranksWithCount_tally [OF l n, of 1] ranksWithCount_tally [OF l n, of 2]
      ranksWithCount_tally [OF l n, of 4] by simp_all
  have q: "length (ranksWithCount ranks' 4) = 1 \<Longrightarrow> ranksWithCount ranks' 1 \<noteq> []"
    using kicker_beside_quads [OF len valid] rw by simp
  have p: "length (ranksWithCount ranks' 2) = 2 \<Longrightarrow> ranksWithCount ranks' 1 \<noteq> []"
    using kicker_beside_two_pairs [OF len valid] rw by simp
  obtain isStraight straightHigh where cs: "checkStraight ranks' = (isStraight, straightHigh)"
    by (cases "checkStraight ranks'")
  show ?thesis
  proof (cases "ranksWithCount ranks' 1")
    case Nil
    with q p have "length (ranksWithCount ranks' 4) \<noteq> 1" "length (ranksWithCount ranks' 2) \<noteq> 2"
      by auto
    with len show ?thesis
      unfolding evaluate_def t by (simp add: cs Let_def)
  next
    case (Cons k0 ks)
    with len show ?thesis
      unfolding evaluate_def t by (simp add: cs Let_def)
  qed
qed

lemma NewHand_returns:
  assumes "length cards = 5" and "\<forall>c \<in> set cards. validCard c"
  shows "\<exists>h. NewHand cards = Inr h"
  using assms evaluate_returns [of "sort_key (\<lambda>c. - Rank c) cards"]
  by (simp add: NewHand_def)

text \<open>
  Claim C8. For every list of exactly 7 cards of the deck, \<open>GetBestHand\<close> returns a hand.
  The enumeration it runs over has 21 entries, which are exactly the 5-card sub-lists of the
  7 cards; every one of them evaluates to a value not above the returned hand's; and the
  returned hand is the evaluation of the first entry of the enumeration that reaches the
  maximum (every entry before it has a strictly smaller value).
\<close>

theorem GetBestHand_first_maximum:
  assumes len: "length cards = 7" and valid: "\<forall>c \<in> set cards. validCard c"
  shows "\<exists>best pre combo post.
           GetBestHand cards = Inr (Some best)
         \<and> length (generateCombinations cards 5) = 21
         \<and> set (generateCombinations cards 5) = {ys. subseq ys cards \<and> length ys = 5}
         \<and> (\<forall>c \<in> set (generateCombinations cards 5).
               \<exists>h. NewHand c = Inr h \<and> Value h \<le> Value best)
         \<and> generateCombinations cards 5 = pre @ combo # post
         \<and> NewHand combo = Inr best
         \<and> (\<forall>c \<in> set pre. \<exists>h. NewHand c = Inr h \<and> Value h < Value best)"
proof -
  let ?combos = "generateCombinations cards 5"
  have "(7::nat) choose 5 = 21" by (simp add: numeral_eq_Suc)
  with len have n: "length ?combos = 21"
    by (simp add: generateCombinations_chooseLists length_chooseLists)
  have s: "set ?combos = {ys. subseq ys cards \<and> length ys = 5}"
    by (simp add: generateCombinations_chooseLists set_chooseLists)
  have "\<forall>c \<in> set ?combos. \<exists>h. NewHand c = Inr h"
  proof
    fix c assume "c \<in> set ?combos"
    with s have c: "subseq c cards" "length c = 5" by simp_all
    from c(1) have "set c \<subseteq> set cards" by (metis set_nths_subset subseq_conv_nths)
    with valid have "\<forall>x \<in> set c. validCard x" by blast
    from NewHand_returns [OF c(2) this] show "\<exists>h. NewHand c = Inr h" .
  qed
  from bestLoop_returns [OF this, of None] n obtain best where
    b: "bestLoop ?combos None = Inr (Some best)" by (cases "?combos") auto
  from bestLoop_first_max [OF b] obtain pre combo post where
    p: "?combos = pre @ combo # post" "NewHand combo = Inr best"
       "\<forall>c \<in> set pre. \<exists>h. NewHand c = Inr h \<and> Value h < Value best"
       "\<forall>c \<in> set post. \<exists>h. NewHand c = Inr h \<and> Value h \<le> Value best" by blast
  have all: "\<forall>c \<in> set ?combos. \<exists>h. NewHand c = Inr h \<and> Value h \<le> Value best"
  proof
    fix c assume "c \<in> set ?combos"
    with p(1) have "c \<in> set pre \<or> c = combo \<or> c \<in> set post" by auto
    with p show "\<exists>h. NewHand c = Inr h \<and> Value h \<le> Value best" by fastforce
  qed
  from b len have "GetBestHand cards = Inr (Some best)" by (simp add: GetBestHand_def)
  with n s all p show ?thesis by blast
qed

theorem GetBestHand_first_maximum_witness:
  "length [NewCard Ace Spades, NewCard Ace Hearts, NewCard Ace Diamonds, NewCard King Clubs,
           NewCard King Spades, NewCard Queen Hearts, NewCard Jack Diamonds] = 7
   \<and> list_all validCard [NewCard Ace Spades, NewCard Ace Hearts, NewCard Ace Diamonds,
           NewCard King Clubs, NewCard King Spades, NewCard Queen Hearts, NewCard Jack Diamonds]
   \<and> (\<exists>best. GetBestHand [NewCard Ace Spades, NewCard Ace Hearts, NewCard Ace Diamonds,
           NewCard King Clubs, NewCard King Spades, NewCard Queen Hearts, NewCard Jack Diamonds]
          = Inr (Some best))"
proof -
  let ?cards = "[NewCard Ace Spades, NewCard Ace Hearts, NewCard Ace Diamonds, NewCard King Clubs,
           NewCard King Spades, NewCard Queen Hearts, NewCard Jack Diamonds]"
  have l: "length ?cards = 7" by simp
  have v: "\<forall>c \<in> set ?cards. validCard c"
    by (simp add: validCard_def NewCard_def rank_defs suit_defs)
  then have v': "list_all validCard ?cards" by (simp only: list_all_iff)
  from GetBestHand_first_maximum [OF l v] l v' show ?thesis by blast
qed

text \<open>
  Claim C1 says that a hand of a higher category always has the higher \<open>Value\<close>.
  Evaluated on a royal flush and on the high-card hand A-K-Q-J-9: the five kickers of the
  high-card hand are weighted 100^4 .. 1, so the first kicker alone contributes
  14 * 100000000, more than the category weight 9 * 100000000 of the royal flush.
\<close>

theorem high_card_outvalues_royal_flush:
  "NewHand [NewCard Ace Spades, NewCard King Spades, NewCard Queen Spades,
            NewCard Jack Spades, NewCard Ten Spades]
     = Inr \<lparr>Cards = [NewCard Ace Spades, NewCard King Spades, NewCard Queen Spades,
                     NewCard Jack Spades, NewCard Ten Spades],
            HRank = RoyalFlush, Kickers = [], Value = 900000014\<rparr>
   \<and> NewHand [NewCard Ace Spades, NewCard King Hearts, NewCard Queen Diamonds,
              NewCard Jack Clubs, NewCard Nine Spades]
     = Inr \<lparr>Cards = [NewCard Ace Spades, NewCard King Hearts, NewCard Queen Diamonds,
                     NewCard Jack Clubs, NewCard Nine Spades],
            HRank = HighCard, Kickers = [Ace, King, Queen, Jack, Nine], Value = 1413121109\<rparr>
   \<and> rankInt HighCard < rankInt RoyalFlush
   \<and> (900000014 :: int) < 1413121109"
  by code_simp

section \<open>The snapshot hides the other players' hole cards\<close>

lemma playerStates_hidden:
  "playerStates g v ids = Inr states \<Longrightarrow>
   length states = length ids
   \<and> (\<forall>i < length ids. ids ! i \<noteq> v \<longrightarrow> psHoleCards (states ! i) = [])"
proof (induction ids arbitrary: states)
  case Nil
  then show ?case by simp
next
  case (Cons pid rest)
  from Cons.prems obtain player states' where
    p: "Players g pid = Some player" and r: "playerStates g v rest = Inr states'"
    and s: "states = playerStateFor v pid player # states'"
    by (auto simp: bindE_eq_Inr split: option.splits)
  from Cons.IH [OF r] have ih: "length states' = length rest"
    "\<forall>i < length rest. rest ! i \<noteq> v \<longrightarrow> psHoleCards (states' ! i) = []" by simp_all
  show ?case
  proof (intro conjI allI impI)
    show "length states = length (pid # rest)" using s ih by simp
  next
    fix i assume "i < length (pid # rest)" "(pid # rest) ! i \<noteq> v"
    with s ih show "psHoleCards (states ! i) = []"
      by (cases i) (simp_all add: playerStateFor_def)
  qed
qed

lemma playerStates_other_hole_cards:
  "p \<noteq> v \<Longrightarrow> Players g p = Some pl \<Longrightarrow>
   playerStates (g\<lparr>Players := (Players g)(p \<mapsto> pl\<lparr>HoleCards := hc\<rparr>)\<rparr>) v ids
     = playerStates g v ids"
  by (induction ids) (auto simp: playerStateFor_def split: option.splits)

lemma playerStates_returns:
  "\<forall>pid \<in> set ids. Players g pid \<noteq> None \<Longrightarrow> \<exists>states. playerStates g v ids = Inr states"
  by (induction ids) auto

text \<open>
  Claim C10. In the snapshot that \<open>GetGameState\<close> makes for a viewer, the entry of every
  seat whose player is not the viewer has no hole cards, whatever the phase (the phase is
  not consulted); changing another player's hole cards does not change the viewer's
  snapshot; and the snapshot exists whenever every seat has a player.
\<close>

theorem opponents_hole_cards_hidden:
  "(\<forall>s i. GetGameState g v = Inr s \<and> i < length (PlayerOrder g) \<and> PlayerOrder g ! i \<noteq> v
           \<longrightarrow> length (gsPlayers s) = length (PlayerOrder g)
               \<and> psHoleCards (gsPlayers s ! i) = [])
   \<and> (\<forall>p pl hc. p \<noteq> v \<and> Players g p = Some pl
           \<longrightarrow> GetGameState (g\<lparr>Players := (Players g)(p \<mapsto> pl\<lparr>HoleCards := hc\<rparr>)\<rparr>) v
               = GetGameState g v)
   \<and> ((\<forall>pid \<in> set (PlayerOrder g). Players g pid \<noteq> None)
           \<longrightarrow> (\<exists>s. GetGameState g v = Inr s))"
proof (intro conjI allI impI)
  fix s i
  assume a: "GetGameState g v = Inr s \<and> i < length (PlayerOrder g) \<and> PlayerOrder g ! i \<noteq> v"
  then obtain states where st: "playerStates g v (PlayerOrder g) = Inr states"
    and s: "gsPlayers s = states"
    by (auto simp: GetGameState_def bindE_eq_Inr)
  from playerStates_hidden [OF st] a s
  show "length (gsPlayers s) = length (PlayerOrder g)" "psHoleCards (gsPlayers s ! i) = []"
    by simp_all
next
  fix p pl hc
  assume "p \<noteq> v \<and> Players g p = Some pl"
  then show "GetGameState (g\<lparr>Players := (Players g)(p \<mapsto> pl\<lparr>HoleCards := hc\<rparr>)\<rparr>) v
               = GetGameState g v"
    by (simp add: GetGameState_def playerStates_other_hole_cards getCurrentPlayerID_def)
next
  assume "\<forall>pid \<in> set (PlayerOrder g). Players g pid \<noteq> None"
  from playerStates_returns [OF this, of v] show "\<exists>s. GetGameState g v = Inr s"
    by (auto simp: GetGameState_def)
qed

theorem opponents_hole_cards_hidden_witness:
  "(\<exists>s. GetGameState twoSeatShowdown ''player1'' = Inr s
        \<and> length (gsPlayers s) = 2
        \<and> gsPhase s = Showdown
        \<and> psHoleCards (gsPlayers s ! 0) = [NewCard Ace Spades, NewCard Ace Hearts]
        \<and> psHoleCards (gsPlayers s ! 1) = [])
   \<and> GetGameState (twoSeatShowdown\<lparr>Players := (Players twoSeatShowdown)(''player2'' \<mapsto>
          (NewPlayer ''player2'' ''Bob'' 10000 1)\<lparr>HoleCards := [NewCard Two Clubs, NewCard Seven Hearts]\<rparr>)\<rparr>)
        ''player1''
      = GetGameState twoSeatShowdown ''player1''"
proof -
  have seats: "\<forall>pid \<in> set (PlayerOrder twoSeatShowdown). Players twoSeatShowdown pid \<noteq> None"
    by (simp add: twoSeatShowdown_def NewGame_def)
  have order: "PlayerOrder twoSeatShowdown = [''player1'', ''player2'']"
    by (simp add: twoSeatShowdown_def NewGame_def)
  have p2: "Players twoSeatShowdown ''player2''
      = Some ((NewPlayer ''player2'' ''Bob'' 10000 1)\<lparr>HoleCards := [NewCard King Spades, NewCard King Hearts]\<rparr>)"
    by (simp add: twoSeatShowdown_def NewGame_def)
  note hidden = opponents_hole_cards_hidden [of twoSeatShowdown "''player1''"]
  from hidden seats obtain s where s: "GetGameState twoSeatShowdown ''player1'' = Inr s" by blast
  with hidden order have "length (gsPlayers s) = 2" "psHoleCards (gsPlayers s ! 1) = []"
    by (auto simp del: One_nat_def)
  moreover from s have "gsPhase s = Showdown"
    "psHoleCards (gsPlayers s ! 0) = [NewCard Ace Spades, NewCard Ace Hearts]"
    by (auto simp: GetGameState_def twoSeatShowdown_def NewGame_def playerStateFor_def NewPlayer_def)
  moreover have "GetGameState (twoSeatShowdown\<lparr>Players := (Players twoSeatShowdown)(''player2'' \<mapsto>
          (NewPlayer ''player2'' ''Bob'' 10000 1)\<lparr>HoleCards := [NewCard Two Clubs, NewCard Seven Hearts]\<rparr>)\<rparr>)
        ''player1''
      = GetGameState twoSeatShowdown ''player1''"
  proof -
    let ?pl = "(NewPlayer ''player2'' ''Bob'' 10000 1)\<lparr>HoleCards := [NewCard King Spades, NewCard King Hearts]\<rparr>"
    note other = conjunct1 [OF conjunct2 [OF hidden], rule_format,
      where p = "''player2''" and pl = ?pl and hc = "[NewCard Two Clubs, NewCard Seven Hearts]"]
    have "''player2'' \<noteq> ''player1'' \<and> Players twoSeatShowdown ''player2'' = Some ?pl"
      using p2 by simp
    from other [OF this]
    have "GetGameState (twoSeatShowdown\<lparr>Players := (Players twoSeatShowdown)(''player2'' \<mapsto>
            ?pl\<lparr>HoleCards := [NewCard Two Clubs, NewCard Seven Hearts]\<rparr>)\<rparr>) ''player1''
          = GetGameState twoSeatShowdown ''player1''" .
    then show ?thesis by simp
  qed
  ultimately show ?thesis using s by blast
qed

section \<open>Scenarios at a heads-up table\<close>

text \<open>The definitions that a run of the game unfolds.\<close>

lemmas start_defs = AddPlayer_def NewGame_def NewPlayer_def numPlayers_def startNewHand_def
  moveDealerButton_def dealHoleCards_def postBlinds_def postBlind_def modSeats_def
  moveToNextActivePlayer_def ResetForNewHand_def CanAct_def Bet_def Let_def
  dealOrZero_pos getCurrentPlayerID_def wrap64_def

lemmas action_defs = processAction_def applyAction_def recordAction_def advanceGame_def
  getActivePlayers_def isBettingRoundComplete_def advancePhase_def moveToNextPlayer_def
  moveToNextActivePlayer_def modSeats_def getCurrentPlayerID_def CanAct_def Bet_def FoldHand_def
  dealFlop_def dealTurn_def dealRiver_def burn_def dealCommunityCard_def Deal_pos dealOrZero_pos
  Let_def wrap64_def

text \<open>
  Claim C7. A game with a minimum of 2 players and blinds 50/100; two players join with
  10000 chips each. After the first join the game still waits; the second join starts the
  hand: the phase is \<open>PreFlop\<close>, the second seat has the button and posts the small blind
  50, the first seat posts the big blind 100, and the small blind is to act. The small
  blind calls (50 more), the big blind checks: the phase is \<open>Flop\<close>, the pot is 200, both
  current-street bets are 0 and three community cards lie on the table. This holds for
  every shuffle and every clock reading.
\<close>

theorem heads_up_first_street:
  assumes cfg: "MinPlayersPerTable conf = 2" "cfgSmallBlind conf = 50"
      "cfgBigBlind conf = 100" "2 \<le> MaxPlayersPerTable conf"
    and ids: "id1 \<noteq> id2"
  shows "\<exists>g1 g2 g3 g4.
      AddPlayer (NewGame gid name conf t0) (NewPlayer id1 name1 10000 seat1) t1 draw1 = Inr g1
    \<and> Phase g1 = WaitingForPlayers
    \<and> AddPlayer g1 (NewPlayer id2 name2 10000 seat2) t2 draw2 = Inr g2
    \<and> Phase g2 = PreFlop
    \<and> PlayerOrder g2 = [id1, id2]
    \<and> DealerPos g2 = 1 \<and> SmallBlindPos g2 = 1 \<and> BigBlindPos g2 = 0
    \<and> map_option CurrentBet (Players g2 id2) = Some 50
    \<and> map_option CurrentBet (Players g2 id1) = Some 100
    \<and> Pot g2 = 150
    \<and> getCurrentPlayerID g2 = id2
    \<and> processAction g2 id2 Call 0 t3 = Inr g3
    \<and> Phase g3 = PreFlop
    \<and> map_option CurrentBet (Players g3 id2) = Some 100
    \<and> map_option ChipCount (Players g3 id2) = Some 9900
    \<and> getCurrentPlayerID g3 = id1
    \<and> processAction g3 id1 Check 0 t4 = Inr g4
    \<and> Phase g4 = Flop
    \<and> Pot g4 = 200
    \<and> map_option CurrentBet (Players g4 id1) = Some 0
    \<and> map_option CurrentBet (Players g4 id2) = Some 0
    \<and> length (CommunityCards g4) = 3"
  using assms by (simp add: start_defs action_defs)

theorem heads_up_first_street_witness:
  "\<exists>g1 g2 g3 g4.
      AddPlayer (NewGame ''game1'' ''Test Game'' testConfig 0)
        (NewPlayer ''player1'' ''Alice'' 10000 0) 1 (\<lambda>i. i) = Inr g1
    \<and> AddPlayer g1 (NewPlayer ''player2'' ''Bob'' 10000 1) 2 (\<lambda>i. i) = Inr g2
    \<and> Phase g2 = PreFlop
    \<and> processAction g2 ''player2'' Call 0 3 = Inr g3
    \<and> processAction g3 ''player1'' Check 0 4 = Inr g4
    \<and> Phase g4 = Flop
    \<and> Pot g4 = 200"
proof -
  have c: "MinPlayersPerTable testConfig = 2" "cfgSmallBlind testConfig = 50"
    "cfgBigBlind testConfig = 100" "2 \<le> MaxPlayersPerTable testConfig"
    by (simp_all add: testConfig_def)
  have i: "''player1'' \<noteq> ''player2''" by simp
  from heads_up_first_street [OF c i, of "''game1''" "''Test Game''" 0 "''Alice''" 0 1 "\<lambda>i. i"
      "''Bob''" 1 2 "\<lambda>i. i" 3 4]
  show ?thesis by blast
qed

text \<open>
  Claim C4 says that a betting round never ends while a player who can act has not acted
  in that street. The hand of claim C7, one action further: on the flop the big blind
  checks, and the phase is already \<open>Turn\<close>, although the other player can act and has not
  acted on the flop: the action log holds one action of that player, the pre-flop call.
  \<open>isBettingRoundComplete\<close> asks for \<open>LastAction \<noteq> nil\<close>, and \<open>LastAction\<close> is cleared by
  \<open>ResetForNewHand\<close> only, once per hand, not once per street.
\<close>

theorem flop_ends_after_one_check:
  "\<exists>g1 g2 g3 g4 g5.
      AddPlayer (NewGame ''game1'' ''Test Game'' testConfig 0)
        (NewPlayer ''player1'' ''Alice'' 10000 0) 1 draw1 = Inr g1
    \<and> AddPlayer g1 (NewPlayer ''player2'' ''Bob'' 10000 1) 2 draw2 = Inr g2
    \<and> processAction g2 ''player2'' Call 0 3 = Inr g3
    \<and> processAction g3 ''player1'' Check 0 4 = Inr g4
    \<and> Phase g4 = Flop
    \<and> map_option CanAct (Players g4 ''player2'') = Some True
    \<and> processAction g4 ''player1'' Check 0 5 = Inr g5
    \<and> Phase g5 = Turn
    \<and> Actions g5 =
         [\<lparr>PlayerID = ''player2'', ActionKind = Call, Amount = 0, Time = 3\<rparr>,
          \<lparr>PlayerID = ''player1'', ActionKind = Check, Amount = 0, Time = 4\<rparr>,
          \<lparr>PlayerID = ''player1'', ActionKind = Check, Amount = 0, Time = 5\<rparr>]
    \<and> map_option LastAction (Players g5 ''player2'')
         = Some (Some \<lparr>PlayerID = ''player2'', ActionKind = Call, Amount = 0, Time = 3\<rparr>)"
  by (simp add: start_defs action_defs testConfig_def)

text \<open>
  Claim C5 says that advancing to the next street resets the minimum raise to the big
  blind. Heads-up with blinds 50/100: the small blind raises by 500 and the big blind
  calls. On the flop the street-high bet is 0 again, but the minimum raise is still 500,
  not the big blind 100, and a raise by 100 is refused: \<open>advancePhase\<close> resets \<open>LastRaise\<close>
  and leaves \<open>MinRaise\<close> as it was, where \<open>startNewHand\<close> resets both.
\<close>

theorem min_raise_survives_street:
  "\<exists>g1 g2 g3 g4.
      AddPlayer (NewGame ''game1'' ''Test Game'' testConfig 0)
        (NewPlayer ''player1'' ''Alice'' 10000 0) 1 draw1 = Inr g1
    \<and> AddPlayer g1 (NewPlayer ''player2'' ''Bob'' 10000 1) 2 draw2 = Inr g2
    \<and> processAction g2 ''player2'' Raise 500 3 = Inr g3
    \<and> MinRaise g3 = 500
    \<and> processAction g3 ''player1'' Call 0 4 = Inr g4
    \<and> Phase g4 = Flop
    \<and> LastRaise g4 = 0
    \<and> BigBlind g4 = 100
    \<and> MinRaise g4 = 500
    \<and> processAction g4 ''player1'' Raise 100 5 = Inl (MinimumRaiseIs 500)"
  by (simp add: start_defs action_defs testConfig_def)

section \<open>Settlement: one pot\<close>

lemma shuffle_identity: "shuffleFrom n (\<lambda>i. i) cs = cs"
  by (induction n arbitrary: cs) (simp_all add: Let_def)

lemma Reset_identity: "Reset (\<lambda>i. i) d = d\<lparr>DeckCards := allCards\<rparr>"
  by (simp add: Reset_def Shuffle_def shuffle_identity)

lemma allCards_eq:
  "allCards =
     [\<lparr>Rank = 2, Suit = 0\<rparr>, \<lparr>Rank = 3, Suit = 0\<rparr>, \<lparr>Rank = 4, Suit = 0\<rparr>, \<lparr>Rank = 5, Suit = 0\<rparr>,
      \<lparr>Rank = 6, Suit = 0\<rparr>, \<lparr>Rank = 7, Suit = 0\<rparr>, \<lparr>Rank = 8, Suit = 0\<rparr>, \<lparr>Rank = 9, Suit = 0\<rparr>,
      \<lparr>Rank = 10, Suit = 0\<rparr>, \<lparr>Rank = 11, Suit = 0\<rparr>, \<lparr>Rank = 12, Suit = 0\<rparr>, \<lparr>Rank = 13, Suit = 0\<rparr>,
      \<lparr>Rank = 14, Suit = 0\<rparr>, \<lparr>Rank = 2, Suit = 1\<rparr>, \<lparr>Rank = 3, Suit = 1\<rparr>, \<lparr>Rank = 4, Suit = 1\<rparr>,
      \<lparr>Rank = 5, Suit = 1\<rparr>, \<lparr>Rank = 6, Suit = 1\<rparr>, \<lparr>Rank = 7, Suit = 1\<rparr>, \<lparr>Rank = 8, Suit = 1\<rparr>,
      \<lparr>Rank = 9, Suit = 1\<rparr>, \<lparr>Rank = 10, Suit = 1\<rparr>, \<lparr>Rank = 11, Suit = 1\<rparr>, \<lparr>Rank = 12, Suit = 1\<rparr>,
      \<lparr>Rank = 13, Suit = 1\<rparr>, \<lparr>Rank = 14, Suit = 1\<rparr>, \<lparr>Rank = 2, Suit = 2\<rparr>, \<lparr>Rank = 3, Suit = 2\<rparr>,
      \<lparr>Rank = 4, Suit = 2\<rparr>, \<lparr>Rank = 5, Suit = 2\<rparr>, \<lparr>Rank = 6, Suit = 2\<rparr>, \<lparr>Rank = 7, Suit = 2\<rparr>,
      \<lparr>Rank = 8, Suit = 2\<rparr>, \<lparr>Rank = 9, Suit = 2\<rparr>, \<lparr>Rank = 10, Suit = 2\<rparr>, \<lparr>Rank = 11, Suit = 2\<rparr>,
      \<lparr>Rank = 12, Suit = 2\<rparr>, \<lparr>Rank = 13, Suit = 2\<rparr>, \<lparr>Rank = 14, Suit = 2\<rparr>, \<lparr>Rank = 2, Suit = 3\<rparr>,
      \<lparr>Rank = 3, Suit = 3\<rparr>, \<lparr>Rank = 4, Suit = 3\<rparr>, \<lparr>Rank = 5, Suit = 3\<rparr>, \<lparr>Rank = 6, Suit = 3\<rparr>,
      \<lparr>Rank = 7, Suit = 3\<rparr>, \<lparr>Rank = 8, Suit = 3\<rparr>, \<lparr>Rank = 9, Suit = 3\<rparr>, \<lparr>Rank = 10, Suit = 3\<rparr>,
      \<lparr>Rank = 11, Suit = 3\<rparr>, \<lparr>Rank = 12, Suit = 3\<rparr>, \<lparr>Rank = 13, Suit = 3\<rparr>, \<lparr>Rank = 14, Suit = 3\<rparr>]"
  by (simp add: allCards_def rank_defs suit_defs NewCard_def upto.simps)

lemma besthand_short: "GetBestHand [\<lparr>Rank = 4, Suit = 0\<rparr>, \<lparr>Rank = 7, Suit = 0\<rparr>, \<lparr>Rank = 9, Suit = 0\<rparr>,
   \<lparr>Rank = 10, Suit = 0\<rparr>, \<lparr>Rank = 11, Suit = 0\<rparr>, \<lparr>Rank = 13, Suit = 0\<rparr>, \<lparr>Rank = 2, Suit = 1\<rparr>]
  = Inr (Some \<lparr>Cards = [\<lparr>Rank = 13, Suit = 0\<rparr>, \<lparr>Rank = 11, Suit = 0\<rparr>, \<lparr>Rank = 10, Suit = 0\<rparr>,
      \<lparr>Rank = 9, Suit = 0\<rparr>, \<lparr>Rank = 7, Suit = 0\<rparr>], HRank = Flush, Kickers = [13, 11, 10, 9, 7],
      Value = 1811100907\<rparr>)"
  by code_simp

lemma besthand_mid: "GetBestHand [\<lparr>Rank = 3, Suit = 0\<rparr>, \<lparr>Rank = 6, Suit = 0\<rparr>, \<lparr>Rank = 9, Suit = 0\<rparr>,
   \<lparr>Rank = 10, Suit = 0\<rparr>, \<lparr>Rank = 11, Suit = 0\<rparr>, \<lparr>Rank = 13, Suit = 0\<rparr>, \<lparr>Rank = 2, Suit = 1\<rparr>]
  = Inr (Some \<lparr>Cards = [\<lparr>Rank = 13, Suit = 0\<rparr>, \<lparr>Rank = 11, Suit = 0\<rparr>, \<lparr>Rank = 10, Suit = 0\<rparr>,
      \<lparr>Rank = 9, Suit = 0\<rparr>, \<lparr>Rank = 6, Suit = 0\<rparr>], HRank = Flush, Kickers = [13, 11, 10, 9, 6],
      Value = 1811100906\<rparr>)"
  by code_simp

lemma besthand_big: "GetBestHand [\<lparr>Rank = 2, Suit = 0\<rparr>, \<lparr>Rank = 5, Suit = 0\<rparr>, \<lparr>Rank = 9, Suit = 0\<rparr>,
   \<lparr>Rank = 10, Suit = 0\<rparr>, \<lparr>Rank = 11, Suit = 0\<rparr>, \<lparr>Rank = 13, Suit = 0\<rparr>, \<lparr>Rank = 2, Suit = 1\<rparr>]
  = Inr (Some \<lparr>Cards = [\<lparr>Rank = 13, Suit = 0\<rparr>, \<lparr>Rank = 11, Suit = 0\<rparr>, \<lparr>Rank = 10, Suit = 0\<rparr>,
      \<lparr>Rank = 9, Suit = 0\<rparr>, \<lparr>Rank = 5, Suit = 0\<rparr>], HRank = Flush, Kickers = [13, 11, 10, 9, 5],
      Value = 1811100905\<rparr>)"
  by code_simp

text \<open>The definitions that a settlement unfolds.\<close>

lemmas settle_defs = endHand_def calculateSidePots_def distributePots_def determineWinners_def
  removeEliminatedPlayers_def goDiv_def goMod_def addChips_def CompareHands_def
  besthand_short besthand_mid besthand_big

text \<open>
  Claim C2 says that settlement builds one pot tier per distinct all-in amount, each with
  the contributions up to its threshold and open only to the players that contributed
  at least that much. The hand \<open>threeAllInHand\<close>: stacks 5000, 2000 and 500; the 2000 stack
  and the 500 stack are all-in for different amounts and the 5000 stack has called 2000.
  The spec's thresholds are 500 and 2000, its lowest tier holds 1500, and the 500 stack
  is not eligible above it. The game builds one pot of 4500 open to all three, and the
  500 stack, holding the best hand, is paid all 4500.
\<close>

theorem one_pot_for_unequal_all_ins:
  "threeAllInHand = Inr threeSettled
   \<and> Phase threeSettled = Showdown
   \<and> PlayerOrder threeSettled = [''big'', ''mid'', ''short'']
   \<and> map TotalBet (seatedPlayers threeSettled) = [2000, 2000, 500]
   \<and> map IsAllIn (seatedPlayers threeSettled) = [False, True, True]
   \<and> specThresholds threeSettled = [500, 2000]
   \<and> SidePots threeSettled = [\<lparr>PotAmount = 4500, EligiblePlayers = [''big'', ''mid'', ''short'']\<rparr>]
   \<and> specTierPot threeSettled 500 = 1500
   \<and> specTierEligible threeSettled 2000 = [''big'', ''mid'']
   \<and> chipsOf threeSettled ''short'' = 4500
   \<and> chipsOf threeSettled ''mid'' = 0
   \<and> chipsOf threeSettled ''big'' = 3000"
  unfolding threeSettled_def
  by (simp add: threeAllInHand_def threeJoined_def threeConfig_def testConfig_def
           start_defs action_defs settle_defs Reset_identity allCards_eq
           seatedPlayers_def specThresholds_def specTierPot_def specTierEligible_def chipsOf_def)

text \<open>
  Claim C2 as the code has it. Whatever the all-in amounts, \<open>calculateSidePots\<close> builds a
  single pot: its amount is the whole pot, its eligible players are exactly the players
  that have not folded, in seat order, and so the pots sum to the pot of the hand. The
  winners are taken among these players, and \<open>distributePots\<close> changes no other player.
\<close>

theorem single_pot_settlement:
  assumes seats: "\<forall>pid \<in> set (PlayerOrder g). Players g pid \<noteq> None"
  shows "\<exists>g'. calculateSidePots g = Inr g'
           \<and> g' = g\<lparr>SidePots := [\<lparr>PotAmount = Pot g, EligiblePlayers = getActivePlayers g\<rparr>]\<rparr>
           \<and> set (getActivePlayers g)
               = {pid \<in> set (PlayerOrder g). \<exists>player. Players g pid = Some player \<and> \<not> HasFolded player}
           \<and> sum_list (map PotAmount (SidePots g')) = Pot g
           \<and> (\<forall>ws. determineWinners g' (getActivePlayers g') = Inr ws
                  \<longrightarrow> set ws \<subseteq> set (getActivePlayers g))
           \<and> (\<forall>g'' pid. distributePots g' = Inr g'' \<and> pid \<notin> set (getActivePlayers g)
                  \<longrightarrow> Players g'' pid = Players g pid)"
proof -
  let ?g' = "g\<lparr>SidePots := [\<lparr>PotAmount = Pot g, EligiblePlayers = getActivePlayers g\<rparr>]\<rparr>"
  from eligibleLoop_filter [OF seats, of "[]"]
  have c: "calculateSidePots g = Inr ?g'"
    by (simp add: calculateSidePots_def getActivePlayers_def)
  have a: "getActivePlayers ?g' = getActivePlayers g" by (simp add: getActivePlayers_def)
  have s: "set (getActivePlayers g)
      = {pid \<in> set (PlayerOrder g). \<exists>player. Players g pid = Some player \<and> \<not> HasFolded player}"
    by (auto simp: getActivePlayers_def split: option.splits)
  have w: "\<forall>ws. determineWinners ?g' (getActivePlayers ?g') = Inr ws
                  \<longrightarrow> set ws \<subseteq> set (getActivePlayers g)"
    using determineWinners_subset [of ?g' "getActivePlayers ?g'"] a by simp
  have d: "\<forall>g'' pid. distributePots ?g' = Inr g'' \<and> pid \<notin> set (getActivePlayers g)
                  \<longrightarrow> Players g'' pid = Players g pid"
  proof (intro allI impI)
    fix g'' pid
    assume h: "distributePots ?g' = Inr g'' \<and> pid \<notin> set (getActivePlayers g)"
    then have h1: "distributePots ?g' = Inr g''" and h2: "pid \<notin> set (getActivePlayers g)"
      by simp_all
    from distributePots_frame [OF h1] obtain ps pot where
      g'': "g'' = ?g'\<lparr>Players := ps, Pot := pot\<rparr>"
      and f: "\<forall>pid. pid \<notin> set (getActivePlayers ?g') \<longrightarrow> ps pid = Players ?g' pid" by blast
    from f h2 a have "ps pid = Players ?g' pid" by simp
    with g'' show "Players g'' pid = Players g pid" by simp
  qed
  have t: "sum_list (map PotAmount (SidePots ?g')) = Pot g" by simp
  show ?thesis
    by (rule exI [of _ ?g']) (intro conjI c refl s t w d)
qed

theorem single_pot_settlement_witness:
  "\<exists>g'. calculateSidePots (twoSeatShowdown\<lparr>Pot := 300\<rparr>) = Inr g'
      \<and> SidePots g' = [\<lparr>PotAmount = 300, EligiblePlayers = [''player1'', ''player2'']\<rparr>]"
proof -
  have "\<forall>pid \<in> set (PlayerOrder (twoSeatShowdown\<lparr>Pot := 300\<rparr>)).
          Players (twoSeatShowdown\<lparr>Pot := 300\<rparr>) pid \<noteq> None"
    by (simp add: twoSeatShowdown_def NewGame_def)
  from single_pot_settlement [OF this] obtain g' where
    "calculateSidePots (twoSeatShowdown\<lparr>Pot := 300\<rparr>) = Inr g'"
    "g' = (twoSeatShowdown\<lparr>Pot := 300\<rparr>)\<lparr>SidePots := [\<lparr>PotAmount = Pot (twoSeatShowdown\<lparr>Pot := 300\<rparr>),
           EligiblePlayers = getActivePlayers (twoSeatShowdown\<lparr>Pot := 300\<rparr>)\<rparr>]\<rparr>"
    by blast
  moreover have "getActivePlayers (twoSeatShowdown\<lparr>Pot := 300\<rparr>) = [''player1'', ''player2'']"
    by (simp add: getActivePlayers_def twoSeatShowdown_def NewGame_def NewPlayer_def)
  ultimately show ?thesis by simp
qed

section \<open>The chip economy of a hand\<close>

text \<open>
  The two hands of a heads-up table when the deck is in the order of \<open>NewDeck\<close>: both
  players play the flush on the board.
\<close>

lemma besthand_first: "GetBestHand [\<lparr>Rank = 2, Suit = 0\<rparr>, \<lparr>Rank = 4, Suit = 0\<rparr>, \<lparr>Rank = 7, Suit = 0\<rparr>,
   \<lparr>Rank = 8, Suit = 0\<rparr>, \<lparr>Rank = 9, Suit = 0\<rparr>, \<lparr>Rank = 11, Suit = 0\<rparr>, \<lparr>Rank = 13, Suit = 0\<rparr>]
  = Inr (Some \<lparr>Cards = [\<lparr>Rank = 13, Suit = 0\<rparr>, \<lparr>Rank = 11, Suit = 0\<rparr>, \<lparr>Rank = 9, Suit = 0\<rparr>,
      \<lparr>Rank = 8, Suit = 0\<rparr>, \<lparr>Rank = 7, Suit = 0\<rparr>], HRank = Flush, Kickers = [13, 11, 9, 8, 7],
      Value = 1811090807\<rparr>)"
  by code_simp

lemma besthand_second: "GetBestHand [\<lparr>Rank = 3, Suit = 0\<rparr>, \<lparr>Rank = 5, Suit = 0\<rparr>, \<lparr>Rank = 7, Suit = 0\<rparr>,
   \<lparr>Rank = 8, Suit = 0\<rparr>, \<lparr>Rank = 9, Suit = 0\<rparr>, \<lparr>Rank = 11, Suit = 0\<rparr>, \<lparr>Rank = 13, Suit = 0\<rparr>]
  = Inr (Some \<lparr>Cards = [\<lparr>Rank = 13, Suit = 0\<rparr>, \<lparr>Rank = 11, Suit = 0\<rparr>, \<lparr>Rank = 9, Suit = 0\<rparr>,
      \<lparr>Rank = 8, Suit = 0\<rparr>, \<lparr>Rank = 7, Suit = 0\<rparr>], HRank = Flush, Kickers = [13, 11, 9, 8, 7],
      Value = 1811090807\<rparr>)"
  by code_simp

text \<open>The definitions that a settlement by showdown unfolds.\<close>

lemmas tie_defs = endHand_def calculateSidePots_def distributePots_def determineWinners_def
  removeEliminatedPlayers_def goDiv_def goMod_def addChips_def CompareHands_def
  besthand_first besthand_second

text \<open>
  Claim C3 says that over a completed hand the stacks of the players plus the chips not
  awarded are what the stacks were before the hand. Two players buy in for 10000 each and
  the hand starts (blinds 50/100, the deck in the order of \<open>NewDeck\<close>): stacks and pot are
  20000. The small blind, with a stack of 9950, raises by 9223372036854775807, the largest
  \<open>int64\<close>. \<open>LastRaise + amount\<close> wraps around to a negative total bet, so neither the test
  \<open>betAmount > ChipCount\<close> of \<open>processAction\<close> nor the test \<open>amount > ChipCount\<close> of \<open>Bet\<close>
  refuses the raise: the stack and the pot become negative. The big blind checks, and
  checks the flop, the turn and the river. Both hands are the flush on the board, so the
  pot, negative and odd, is split: the quotient by 2 is rounded towards zero and the
  remainder is -1, so no winner is given an odd chip, and the two shares add up to the
  pot plus one. After the hand the pot is 0 and the stacks are 20001: a chip has been
  created.
\<close>

theorem wrapped_raise_creates_chip:
  "\<exists>g1 g2 g3 g4 g5 g6 g7.
      AddPlayer (NewGame ''game1'' ''Test Game'' testConfig 0)
        (NewPlayer ''player1'' ''Alice'' 10000 0) 1 (\<lambda>i. i) = Inr g1
    \<and> AddPlayer g1 (NewPlayer ''player2'' ''Bob'' 10000 1) 2 (\<lambda>i. i) = Inr g2
    \<and> chipsOf g2 ''player1'' = 9900 \<and> chipsOf g2 ''player2'' = 9950 \<and> Pot g2 = 150
    \<and> totalChips g2 + Pot g2 = 20000
    \<and> processAction g2 ''player2'' Raise 9223372036854775807 3 = Inr g3
    \<and> chipsOf g3 ''player2'' = - 9223372036854765907
    \<and> Pot g3 = - 9223372036854775609
    \<and> processAction g3 ''player1'' Check 0 4 = Inr g4
    \<and> processAction g4 ''player1'' Check 0 5 = Inr g5
    \<and> processAction g5 ''player1'' Check 0 6 = Inr g6
    \<and> processAction g6 ''player1'' Check 0 7 = Inr g7
    \<and> Phase g7 = Showdown
    \<and> Pot g7 = 0
    \<and> chipsOf g7 ''player1'' = - 4611686018427377904
    \<and> chipsOf g7 ''player2'' = 4611686018427397905
    \<and> totalChips g7 + Pot g7 = 20001"
  by (simp add: start_defs action_defs tie_defs testConfig_def Reset_identity
        allCards_eq totalChips_def chipsOf_def)

section \<open>The registry of the manager and the seats\<close>





end
